theory Spec2Isabelle
  imports Main "HOL-Library.Word" "HOL-Library.AList"
begin

section \<open>Data model of \<^verbatim>\<open>source/connection.c\<close>\<close>

text \<open>
  Error codes. The C code only ever tests an error code against zero
  (\<^verbatim>\<open>AWS_ERROR_SUCCESS\<close>) and raises the named constants below; the numeric values
  live in headers of other libraries. \<open>AWS_ERROR_OTHER n\<close> stands for any further
  code a collaborator (channel, allocator, hash table) may raise.
\<close>

datatype aws_error =
    AWS_ERROR_SUCCESS
  | AWS_ERROR_UNKNOWN
  | AWS_ERROR_INVALID_ARGUMENT
  | AWS_ERROR_INVALID_STATE
  | AWS_ERROR_HTTP_UNSUPPORTED_PROTOCOL
  | AWS_ERROR_HTTP_CONNECTION_CLOSED
  | AWS_ERROR_HTTP_REACTION_REQUIRED
  | AWS_ERROR_HTTP_STREAM_IDS_EXHAUSTED
  | AWS_ERROR_OTHER nat

definition AWS_OP_SUCCESS :: int where
  "AWS_OP_SUCCESS = 0"

definition AWS_OP_ERR :: int where
  "AWS_OP_ERR = - 1"

datatype aws_http_version =
    AWS_HTTP_VERSION_UNKNOWN
  | AWS_HTTP_VERSION_1_0
  | AWS_HTTP_VERSION_1_1
  | AWS_HTTP_VERSION_2

text \<open>Pointers are identities: a channel, a callback, a user-data pointer, a connection.\<close>

type_synonym channel = nat
type_synonym callback = nat
type_synonym user_ptr = nat
type_synonym conn_ptr = nat

text \<open>\<^verbatim>\<open>connection->server_data\<close>: the two callbacks set by configure_server.\<close>

record aws_http_connection_server_data =
  on_incoming_request :: "callback option"
  on_shutdown :: "callback option"

text \<open>
  \<^verbatim>\<open>struct aws_http_connection\<close>, the fields \<^verbatim>\<open>connection.c\<close> touches.
  \<open>channel_slot\<close> is the channel reached through \<^verbatim>\<open>connection->channel_slot->channel\<close>;
  \<open>client_data\<close> and \<open>server_data\<close> are the nullable role pointers;
  \<open>refcount\<close> is a \<^verbatim>\<open>size_t\<close> atomic and \<open>next_stream_id\<close> a \<^verbatim>\<open>uint32_t\<close>.
  The vtable pointer is passed beside the connection (see \<open>aws_http_connection_vtable\<close>).
\<close>

record aws_http_connection =
  http_version :: aws_http_version
  channel_slot :: channel
  user_data :: "user_ptr option"
  proxy_request_transform :: "callback option"
  client_data :: "unit option"
  server_data :: "aws_http_connection_server_data option"
  refcount :: "64 word"
  next_stream_id :: "32 word"

text \<open>
  What the code does to its surroundings, in order: calls into the channel library, the
  server's mutex, and invocations of user callbacks.
\<close>

datatype event =
    ChannelShutdown channel aws_error
  | ChannelReleaseHold channel
  | ChannelSlotRemove channel
  | ChannelHandlerDestroy conn_ptr
  | ChannelHandlerInstalled channel conn_ptr
  | ChannelSetStatisticsHandler channel
  | NewConnection aws_http_version bool
  | MutexLock
  | MutexUnlock
  | OnSetup "conn_ptr option" aws_error
  | OnShutdown "conn_ptr option" aws_error
  | OnIncomingConnection "conn_ptr option" aws_error
  | OnDestroyComplete
  | DestroySocketListener
  | MemReleaseBootstrap
  | MemReleaseServer

text \<open>
  The state outside the objects: the thread's last error (\<^verbatim>\<open>aws_last_error()\<close>) and the
  trace of events so far.
\<close>

record world =
  last_error :: aws_error
  events :: "event list"

definition aws_raise_error :: "aws_error \<Rightarrow> world \<Rightarrow> int \<times> world" where
  "aws_raise_error e w = (AWS_OP_ERR, w\<lparr>last_error := e\<rparr>)"

definition emit :: "event \<Rightarrow> world \<Rightarrow> world" where
  "emit ev w = w\<lparr>events := events w @ [ev]\<rparr>"

text \<open>The events a call added to the trace.\<close>

definition new_events :: "world \<Rightarrow> world \<Rightarrow> event list" where
  "new_events w w' = drop (length (events w)) (events w')"

section \<open>Stream ids\<close>

text \<open>\<^verbatim>\<open>static const uint32_t MAX_STREAM_ID = UINT32_MAX >> 1;\<close>\<close>

definition MAX_STREAM_ID :: "32 word" where
  "MAX_STREAM_ID = drop_bit 1 (- 1)"

definition aws_http_connection_get_next_stream_id ::
  "aws_http_connection \<Rightarrow> world \<Rightarrow> 32 word \<times> aws_http_connection \<times> world" where
  "aws_http_connection_get_next_stream_id connection w =
     (let next_id = next_stream_id connection in
      if next_id > MAX_STREAM_ID
      then (0, connection, snd (aws_raise_error AWS_ERROR_HTTP_STREAM_IDS_EXHAUSTED w))
      else (next_id, connection\<lparr>next_stream_id := next_stream_id connection + 2\<rparr>, w))"

text \<open>\<open>n\<close> consecutive calls on one connection: the ids returned, in call order.\<close>

fun get_stream_ids ::
  "nat \<Rightarrow> aws_http_connection \<Rightarrow> world \<Rightarrow> 32 word list \<times> aws_http_connection \<times> world" where
  "get_stream_ids 0 connection w = ([], connection, w)"
| "get_stream_ids (Suc n) connection w =
     (case aws_http_connection_get_next_stream_id connection w of
        (i, connection', w') \<Rightarrow>
          (case get_stream_ids n connection' w' of
             (ids, connection'', w'') \<Rightarrow> (i # ids, connection'', w'')))"

section \<open>Reference counting\<close>

text \<open>\<^verbatim>\<open>aws_atomic_fetch_add(&connection->refcount, 1)\<close>, one indivisible step.\<close>

definition aws_http_connection_acquire :: "aws_http_connection \<Rightarrow> aws_http_connection" where
  "aws_http_connection_acquire connection = connection\<lparr>refcount := refcount connection + 1\<rparr>"

text \<open>
  \<^verbatim>\<open>aws_atomic_fetch_sub\<close> returns the previous value; the subtraction wraps as
  \<^verbatim>\<open>size_t\<close> does (the \<^verbatim>\<open>AWS_ASSERT(prev_refcount != 0)\<close> is compiled out of release builds).
\<close>

definition aws_http_connection_release ::
  "aws_http_connection \<Rightarrow> world \<Rightarrow> aws_http_connection \<times> world" where
  "aws_http_connection_release connection w =
     (let prev_refcount = refcount connection;
          connection' = connection\<lparr>refcount := refcount connection - 1\<rparr>
      in if prev_refcount = 1
         then (connection',
               emit (ChannelReleaseHold (channel_slot connection'))
                 (emit (ChannelShutdown (channel_slot connection') AWS_ERROR_SUCCESS) w))
         else (connection', w))"

text \<open>A sequence of acquire and release calls on one connection.\<close>

datatype refcount_op = Acquire | Release

fun refcount_ops ::
  "refcount_op list \<Rightarrow> aws_http_connection \<Rightarrow> world \<Rightarrow> aws_http_connection \<times> world" where
  "refcount_ops [] c w = (c, w)"
| "refcount_ops (Acquire # ops) c w = refcount_ops ops (aws_http_connection_acquire c) w"
| "refcount_ops (Release # ops) c w =
     (case aws_http_connection_release c w of (c', w') \<Rightarrow> refcount_ops ops c' w')"

text \<open>
  \<open>held r ops\<close>: from the count \<open>r\<close>, every call of \<open>ops\<close> finds the connection still
  referenced (a positive count), the count does not overflow \<^verbatim>\<open>size_t\<close>, and a release that
  takes the count to zero is the last call.
\<close>

fun held :: "nat \<Rightarrow> refcount_op list \<Rightarrow> bool" where
  "held r [] = True"
| "held r (Acquire # ops) = (0 < r \<and> Suc r < 2 ^ 64 \<and> held (Suc r) ops)"
| "held r (Release # ops) = (0 < r \<and> (r = 1 \<longrightarrow> ops = []) \<and> held (r - 1) ops)"

section \<open>HTTP/2-only operations\<close>

type_synonym aws_http2_setting = "nat \<times> 32 word"

text \<open>
  \<^verbatim>\<open>connection->vtable\<close>: the protocol implementation, defined in other files of the
  library. Each entry gets the connection and the call's arguments and returns the C
  result, the connection and the world as it leaves them; out-parameters are passed in
  and returned.
\<close>

record aws_http_connection_vtable =
  change_settings ::
    "aws_http_connection \<Rightarrow> aws_http2_setting list \<Rightarrow> callback option \<Rightarrow> user_ptr option \<Rightarrow>
       world \<Rightarrow> int \<times> aws_http_connection \<times> world"
  send_ping ::
    "aws_http_connection \<Rightarrow> 8 word list option \<Rightarrow> callback option \<Rightarrow> user_ptr option \<Rightarrow>
       world \<Rightarrow> int \<times> aws_http_connection \<times> world"
  send_goaway ::
    "aws_http_connection \<Rightarrow> 32 word \<Rightarrow> bool \<Rightarrow> 8 word list option \<Rightarrow>
       world \<Rightarrow> int \<times> aws_http_connection \<times> world"
  get_sent_goaway ::
    "aws_http_connection \<Rightarrow> 32 word \<times> 32 word \<Rightarrow>
       world \<Rightarrow> int \<times> (32 word \<times> 32 word) \<times> aws_http_connection \<times> world"
  get_received_goaway ::
    "aws_http_connection \<Rightarrow> 32 word \<times> 32 word \<Rightarrow>
       world \<Rightarrow> int \<times> (32 word \<times> 32 word) \<times> aws_http_connection \<times> world"
  get_local_settings ::
    "aws_http_connection \<Rightarrow> aws_http2_setting list \<Rightarrow> world \<Rightarrow> aws_http2_setting list \<times> world"
  get_remote_settings ::
    "aws_http_connection \<Rightarrow> aws_http2_setting list \<Rightarrow> world \<Rightarrow> aws_http2_setting list \<times> world"

definition s_check_http2_connection :: "aws_http_connection \<Rightarrow> world \<Rightarrow> int \<times> world" where
  "s_check_http2_connection http2_connection w =
     (if http_version http2_connection = AWS_HTTP_VERSION_2
      then (AWS_OP_SUCCESS, w)
      else aws_raise_error AWS_ERROR_INVALID_STATE w)"

definition aws_http2_connection_change_settings ::
  "aws_http_connection_vtable \<Rightarrow> aws_http_connection \<Rightarrow> aws_http2_setting list \<Rightarrow>
     callback option \<Rightarrow> user_ptr option \<Rightarrow> world \<Rightarrow> int \<times> aws_http_connection \<times> world" where
  "aws_http2_connection_change_settings vtable http2_connection settings_array on_completed ud w =
     (case s_check_http2_connection http2_connection w of
        (r, w') \<Rightarrow>
          if r \<noteq> 0 then (AWS_OP_ERR, http2_connection, w')
          else change_settings vtable http2_connection settings_array on_completed ud w')"

definition aws_http2_connection_ping ::
  "aws_http_connection_vtable \<Rightarrow> aws_http_connection \<Rightarrow> 8 word list option \<Rightarrow>
     callback option \<Rightarrow> user_ptr option \<Rightarrow> world \<Rightarrow> int \<times> aws_http_connection \<times> world" where
  "aws_http2_connection_ping vtable http2_connection optional_opaque_data on_ack ud w =
     (case s_check_http2_connection http2_connection w of
        (r, w') \<Rightarrow>
          if r \<noteq> 0 then (AWS_OP_ERR, http2_connection, w')
          else send_ping vtable http2_connection optional_opaque_data on_ack ud w')"

definition aws_http2_connection_send_goaway ::
  "aws_http_connection_vtable \<Rightarrow> aws_http_connection \<Rightarrow> 32 word \<Rightarrow> bool \<Rightarrow>
     8 word list option \<Rightarrow> world \<Rightarrow> int \<times> aws_http_connection \<times> world" where
  "aws_http2_connection_send_goaway vtable http2_connection http2_error allow_more_streams
       optional_debug_data w =
     (case s_check_http2_connection http2_connection w of
        (r, w') \<Rightarrow>
          if r \<noteq> 0 then (AWS_OP_ERR, http2_connection, w')
          else send_goaway vtable http2_connection http2_error allow_more_streams
                 optional_debug_data w')"

definition aws_http2_connection_get_sent_goaway ::
  "aws_http_connection_vtable \<Rightarrow> aws_http_connection \<Rightarrow> 32 word \<times> 32 word \<Rightarrow>
     world \<Rightarrow> int \<times> (32 word \<times> 32 word) \<times> aws_http_connection \<times> world" where
  "aws_http2_connection_get_sent_goaway vtable http2_connection out w =
     (case s_check_http2_connection http2_connection w of
        (r, w') \<Rightarrow>
          if r \<noteq> 0 then (AWS_OP_ERR, out, http2_connection, w')
          else get_sent_goaway vtable http2_connection out w')"

definition aws_http2_connection_get_received_goaway ::
  "aws_http_connection_vtable \<Rightarrow> aws_http_connection \<Rightarrow> 32 word \<times> 32 word \<Rightarrow>
     world \<Rightarrow> int \<times> (32 word \<times> 32 word) \<times> aws_http_connection \<times> world" where
  "aws_http2_connection_get_received_goaway vtable http2_connection out w =
     (case s_check_http2_connection http2_connection w of
        (r, w') \<Rightarrow>
          if r \<noteq> 0 then (AWS_OP_ERR, out, http2_connection, w')
          else get_received_goaway vtable http2_connection out w')"

text \<open>The two settings getters take a const connection and return success after the call.\<close>

definition aws_http2_connection_get_local_settings ::
  "aws_http_connection_vtable \<Rightarrow> aws_http_connection \<Rightarrow> aws_http2_setting list \<Rightarrow>
     world \<Rightarrow> int \<times> aws_http2_setting list \<times> world" where
  "aws_http2_connection_get_local_settings vtable http2_connection out_settings w =
     (case s_check_http2_connection http2_connection w of
        (r, w') \<Rightarrow>
          if r \<noteq> 0 then (AWS_OP_ERR, out_settings, w')
          else (case get_local_settings vtable http2_connection out_settings w' of
                  (out_settings', w'') \<Rightarrow> (AWS_OP_SUCCESS, out_settings', w'')))"

definition aws_http2_connection_get_remote_settings ::
  "aws_http_connection_vtable \<Rightarrow> aws_http_connection \<Rightarrow> aws_http2_setting list \<Rightarrow>
     world \<Rightarrow> int \<times> aws_http2_setting list \<times> world" where
  "aws_http2_connection_get_remote_settings vtable http2_connection out_settings w =
     (case s_check_http2_connection http2_connection w of
        (r, w') \<Rightarrow>
          if r \<noteq> 0 then (AWS_OP_ERR, out_settings, w')
          else (case get_remote_settings vtable http2_connection out_settings w' of
                  (out_settings', w'') \<Rightarrow> (AWS_OP_SUCCESS, out_settings', w'')))"

section \<open>Server configuration of a connection\<close>

text \<open>
  \<^verbatim>\<open>struct aws_http_server_connection_options\<close>; the fields carry the prefix \<open>opt_\<close>
  because \<open>on_incoming_request\<close> and \<open>on_shutdown\<close> already name the connection's fields.
\<close>

record aws_http_server_connection_options =
  opt_connection_user_data :: "user_ptr option"
  opt_on_incoming_request :: "callback option"
  opt_on_shutdown :: "callback option"

text \<open>
  Both pointer arguments may be null. The result is the C return value, the connection
  (when one was passed) and the world.
\<close>

definition aws_http_connection_configure_server ::
  "aws_http_connection option \<Rightarrow> aws_http_server_connection_options option \<Rightarrow> world \<Rightarrow>
     int \<times> aws_http_connection option \<times> world" where
  "aws_http_connection_configure_server connection options w =
     (case (connection, options) of
        (Some c, Some opts) \<Rightarrow>
          if opt_on_incoming_request opts = None
          then (case aws_raise_error AWS_ERROR_INVALID_ARGUMENT w of (r, w') \<Rightarrow> (r, connection, w'))
          else
            (case server_data c of
               None \<Rightarrow>
                 (case aws_raise_error AWS_ERROR_INVALID_STATE w of (r, w') \<Rightarrow> (r, connection, w'))
             | Some sd \<Rightarrow>
                 if on_incoming_request sd \<noteq> None
                 then (case aws_raise_error AWS_ERROR_INVALID_STATE w of
                         (r, w') \<Rightarrow> (r, connection, w'))
                 else (AWS_OP_SUCCESS,
                       Some (c\<lparr>user_data := opt_connection_user_data opts,
                               server_data :=
                                 Some (sd\<lparr>on_incoming_request := opt_on_incoming_request opts,
                                          on_shutdown := opt_on_shutdown opts\<rparr>)\<rparr>),
                       w))
      | _ \<Rightarrow>
          (case aws_raise_error AWS_ERROR_INVALID_ARGUMENT w of (r, w') \<Rightarrow> (r, connection, w')))"

section \<open>Creating a connection in a channel\<close>

record aws_http2_connection_options =
  initial_settings_array :: "aws_http2_setting list option"
  num_initial_settings :: nat

text \<open>
  The collaborators of \<^verbatim>\<open>connection.c\<close> (channel, TLS handler, protocol implementations,
  hash table, connection monitor) live in other files and libraries. Each is a parameter:
  what its call returns on this occasion. A failing call raises the error it is given
  here. \<open>adj_left_handler\<close> is the handler of the slot to the left of the new one, with
  the protocol \<^verbatim>\<open>aws_tls_handler_protocol\<close> reports for it (\<open>None\<close>: no such slot or no
  handler in it). A failing \<^verbatim>\<open>aws_channel_slot_set_handler\<close> also tells whether it left the
  handler in the slot. The constructors return the new connection with its address.
\<close>

record collaborators =
  aws_channel_slot_new :: "aws_error option"
  aws_channel_slot_insert_end :: "aws_error option"
  adj_left_handler :: "string option"
  aws_http_connection_new_http1_1_server ::
    "bool \<Rightarrow> 64 word \<Rightarrow> aws_error + conn_ptr \<times> aws_http_connection"
  aws_http_connection_new_http1_1_client ::
    "bool \<Rightarrow> 64 word \<Rightarrow> aws_error + conn_ptr \<times> aws_http_connection"
  aws_http_connection_new_http2_server ::
    "bool \<Rightarrow> aws_http2_connection_options option \<Rightarrow> aws_error + conn_ptr \<times> aws_http_connection"
  aws_http_connection_new_http2_client ::
    "bool \<Rightarrow> aws_http2_connection_options option \<Rightarrow> aws_error + conn_ptr \<times> aws_http_connection"
  aws_channel_slot_set_handler :: "(aws_error \<times> bool) option"
  on_channel_handler_installed :: "aws_http_connection \<Rightarrow> channel \<Rightarrow> aws_http_connection"
  aws_hash_table_put :: "aws_error option"
  aws_http_connection_monitoring_options_is_valid :: bool
  aws_crt_statistics_handler_new_http_connection_monitor :: "aws_error option"

text \<open>
  The block ``Determine HTTP version'' of \<^verbatim>\<open>s_connection_new\<close>. \<open>None\<close> is the branch that
  raises \<^verbatim>\<open>AWS_ERROR_INVALID_STATE\<close> because no TLS handler was found.
\<close>

definition s_connection_new_version :: "bool \<Rightarrow> string option \<Rightarrow> aws_http_version option" where
  "s_connection_new_version using_tls tls_handler =
     (if using_tls
      then (case tls_handler of
              None \<Rightarrow> None
            | Some protocol \<Rightarrow>
                if length protocol \<noteq> 0
                then (if protocol = ''http/1.1'' then Some AWS_HTTP_VERSION_1_1
                      else if protocol = ''h2'' then Some AWS_HTTP_VERSION_2
                      else Some AWS_HTTP_VERSION_1_1)
                else Some AWS_HTTP_VERSION_1_1)
      else Some AWS_HTTP_VERSION_1_1)"

text \<open>
  The \<^verbatim>\<open>switch (version)\<close> of \<^verbatim>\<open>s_connection_new\<close>: \<open>Inl e\<close> when the constructor failed
  raising \<open>e\<close>, or when the default branch raises \<^verbatim>\<open>AWS_ERROR_HTTP_UNSUPPORTED_PROTOCOL\<close>.
\<close>

definition s_connection_new_switch ::
  "collaborators \<Rightarrow> aws_http_version \<Rightarrow> bool \<Rightarrow> bool \<Rightarrow> 64 word \<Rightarrow>
     aws_http2_connection_options option \<Rightarrow> world \<Rightarrow>
     (aws_error + conn_ptr \<times> aws_http_connection) \<times> world" where
  "s_connection_new_switch env version is_server manual_window initial_window http2_options w =
     (case version of
        AWS_HTTP_VERSION_1_1 \<Rightarrow>
          (if is_server
           then aws_http_connection_new_http1_1_server env manual_window initial_window
           else aws_http_connection_new_http1_1_client env manual_window initial_window,
           emit (NewConnection AWS_HTTP_VERSION_1_1 is_server) w)
      | AWS_HTTP_VERSION_2 \<Rightarrow>
          (if is_server
           then aws_http_connection_new_http2_server env manual_window http2_options
           else aws_http_connection_new_http2_client env manual_window http2_options,
           emit (NewConnection AWS_HTTP_VERSION_2 is_server) w)
      | _ \<Rightarrow> (Inl AWS_ERROR_HTTP_UNSUPPORTED_PROTOCOL, w))"

text \<open>
  The label \<^verbatim>\<open>error:\<close> of \<^verbatim>\<open>s_connection_new\<close>, reached with a slot: \<open>handler_set\<close> is
  \<^verbatim>\<open>connection_slot->handler\<close> being non-null, \<open>created\<close> the connection if one exists.
\<close>

definition s_connection_new_error :: "channel \<Rightarrow> bool \<Rightarrow> conn_ptr option \<Rightarrow> world \<Rightarrow> world" where
  "s_connection_new_error ch handler_set created w =
     emit (ChannelSlotRemove ch)
       (case created of
          Some p \<Rightarrow> if \<not> handler_set then emit (ChannelHandlerDestroy p) w else w
        | None \<Rightarrow> w)"

definition s_connection_new ::
  "collaborators \<Rightarrow> channel \<Rightarrow> bool \<Rightarrow> bool \<Rightarrow> bool \<Rightarrow> 64 word \<Rightarrow>
     aws_http2_connection_options option \<Rightarrow> world \<Rightarrow>
     (conn_ptr \<times> aws_http_connection) option \<times> world" where
  "s_connection_new env ch is_server using_tls manual_window initial_window http2_options w =
     (case aws_channel_slot_new env of
        Some e \<Rightarrow> (None, snd (aws_raise_error e w))
      | None \<Rightarrow>
     (case aws_channel_slot_insert_end env of
        Some e \<Rightarrow> (None, s_connection_new_error ch False None (snd (aws_raise_error e w)))
      | None \<Rightarrow>
     (case s_connection_new_version using_tls (adj_left_handler env) of
        None \<Rightarrow>
          (None, s_connection_new_error ch False None
                   (snd (aws_raise_error AWS_ERROR_INVALID_STATE w)))
      | Some version \<Rightarrow>
     (case s_connection_new_switch env version is_server manual_window initial_window
             http2_options w of
        (Inl e, w1) \<Rightarrow>
          (None, s_connection_new_error ch False None (snd (aws_raise_error e w1)))
      | (Inr (p, c), w1) \<Rightarrow>
     (case aws_channel_slot_set_handler env of
        Some (e, handler_set) \<Rightarrow>
          (None, s_connection_new_error ch handler_set (Some p) (snd (aws_raise_error e w1)))
      | None \<Rightarrow>
          (Some (p, on_channel_handler_installed env c ch),
           emit (ChannelHandlerInstalled ch p) w1))))))"

section \<open>Server\<close>

record aws_http_server_synced_data =
  is_shutting_down :: bool
  channel_to_connection_map :: "(channel \<times> conn_ptr) list"

text \<open>
  \<^verbatim>\<open>struct aws_http_server\<close>. \<open>server_user_data\<close> is its \<^verbatim>\<open>user_data\<close> (the name is taken by
  the connection's field). The user's \<^verbatim>\<open>on_incoming_connection\<close> callback is user code:
  it is represented by what it does to the connection it is handed (typically, calling
  \<open>aws_http_connection_configure_server\<close> on it); each invocation is also an event.
  The hash table is an association list, the keys in the order a traversal visits them.
\<close>

record aws_http_server =
  is_using_tls :: bool
  manual_window_management :: bool
  initial_window_size :: "64 word"
  server_user_data :: "user_ptr option"
  on_incoming_connection :: "aws_http_connection \<Rightarrow> aws_http_connection"
  on_destroy_complete :: "callback option"
  socket :: nat
  synced_data :: aws_http_server_synced_data

definition s_server_lock_synced_data :: "world \<Rightarrow> world" where
  "s_server_lock_synced_data w = emit MutexLock w"

definition s_server_unlock_synced_data :: "world \<Rightarrow> world" where
  "s_server_unlock_synced_data w = emit MutexUnlock w"

text \<open>
  The label \<^verbatim>\<open>error:\<close> of \<^verbatim>\<open>s_server_bootstrap_on_accept_channel_setup\<close>, with the locals
  \<^verbatim>\<open>error_code\<close>, \<^verbatim>\<open>user_cb_invoked\<close>, \<^verbatim>\<open>channel\<close> and \<^verbatim>\<open>connection\<close> as it finds them.
\<close>

definition s_server_bootstrap_on_accept_channel_setup_error ::
  "aws_error \<Rightarrow> bool \<Rightarrow> channel option \<Rightarrow> (conn_ptr \<times> aws_http_connection) option \<Rightarrow>
     world \<Rightarrow> (conn_ptr \<times> aws_http_connection) option \<times> world" where
  "s_server_bootstrap_on_accept_channel_setup_error error_code user_cb_invoked chan conn w =
     (let error_code' = (if error_code = AWS_ERROR_SUCCESS then last_error w else error_code);
          w1 = (if \<not> user_cb_invoked then emit (OnIncomingConnection None error_code') w else w);
          w2 = (case chan of Some ch \<Rightarrow> emit (ChannelShutdown ch error_code') w1 | None \<Rightarrow> w1)
      in case conn of
           Some (p, c) \<Rightarrow>
             (case aws_http_connection_release c w2 of (c', w3) \<Rightarrow> (Some (p, c'), w3))
         | None \<Rightarrow> (None, w2))"

text \<open>
  The result is \<open>None\<close> where the C code dereferences a null pointer: a null channel
  with a zero error code, or a connection without \<^verbatim>\<open>server_data\<close>. Otherwise it is the
  server, the connection (if one was created) and the world as the call leaves them.
\<close>

definition s_server_bootstrap_on_accept_channel_setup ::
  "collaborators \<Rightarrow> aws_http_server \<Rightarrow> aws_error \<Rightarrow> channel option \<Rightarrow> world \<Rightarrow>
     (aws_http_server \<times> (conn_ptr \<times> aws_http_connection) option \<times> world) option" where
  "s_server_bootstrap_on_accept_channel_setup env server error_code chan w =
     (if error_code \<noteq> AWS_ERROR_SUCCESS
      then (case s_server_bootstrap_on_accept_channel_setup_error error_code False chan None w of
              (conn, w') \<Rightarrow> Some (server, conn, w'))
      else
     (case chan of
        None \<Rightarrow> None
      | Some ch \<Rightarrow>
     (case s_connection_new env ch True (is_using_tls server) (manual_window_management server)
             (initial_window_size server) None w of
        (None, w1) \<Rightarrow>
          (case s_server_bootstrap_on_accept_channel_setup_error error_code False chan None w1 of
             (conn, w') \<Rightarrow> Some (server, conn, w'))
      | (Some (p, c), w1) \<Rightarrow>
          (let w2 = s_server_lock_synced_data w1;
               error_code1 = (if is_shutting_down (synced_data server)
                              then AWS_ERROR_HTTP_CONNECTION_CLOSED else error_code);
               put_err = (if error_code1 = AWS_ERROR_SUCCESS then aws_hash_table_put env else None);
               server1 = (if error_code1 = AWS_ERROR_SUCCESS \<and> put_err = None
                          then server\<lparr>synced_data := (synced_data server)
                                 \<lparr>channel_to_connection_map :=
                                    AList.update ch p
                                      (channel_to_connection_map (synced_data server))\<rparr>\<rparr>
                          else server);
               w3 = (case put_err of Some e \<Rightarrow> snd (aws_raise_error e w2) | None \<Rightarrow> w2);
               w4 = s_server_unlock_synced_data w3
           in if error_code1 \<noteq> AWS_ERROR_SUCCESS
              then (case s_server_bootstrap_on_accept_channel_setup_error error_code1 False chan
                           (Some (p, c)) w4 of
                      (conn, w') \<Rightarrow> Some (server1, conn, w'))
              else if put_err \<noteq> None
              then (case s_server_bootstrap_on_accept_channel_setup_error error_code1 False chan
                           (Some (p, c)) w4 of
                      (conn, w') \<Rightarrow> Some (server1, conn, w'))
              else
                (let w5 = emit (OnIncomingConnection (Some p) AWS_ERROR_SUCCESS) w4;
                     c' = on_incoming_connection server c
                 in case server_data c' of
                      None \<Rightarrow> None
                    | Some sd \<Rightarrow>
                        if on_incoming_request sd = None
                        then (case s_server_bootstrap_on_accept_channel_setup_error error_code1
                                     True chan (Some (p, c'))
                                     (snd (aws_raise_error AWS_ERROR_HTTP_REACTION_REQUIRED w5)) of
                                (conn, w') \<Rightarrow> Some (server1, conn, w'))
                        else Some (server1, Some (p, c'), w5))))))"

definition s_http_server_clean_up :: "aws_http_server option \<Rightarrow> world \<Rightarrow> world" where
  "s_http_server_clean_up server w =
     (case server of
        None \<Rightarrow> w
      | Some s \<Rightarrow>
          emit MemReleaseServer
            (if on_destroy_complete s \<noteq> None then emit OnDestroyComplete w else w))"

definition s_server_bootstrap_on_server_listener_destroy :: "aws_http_server \<Rightarrow> world \<Rightarrow> world" where
  "s_server_bootstrap_on_server_listener_destroy server w = s_http_server_clean_up (Some server) w"

text \<open>The loop of \<^verbatim>\<open>aws_http_server_release\<close> over the entries of the hash table.\<close>

fun s_shutdown_all_channels :: "(channel \<times> conn_ptr) list \<Rightarrow> world \<Rightarrow> world" where
  "s_shutdown_all_channels [] w = w"
| "s_shutdown_all_channels ((ch, p) # rest) w =
     s_shutdown_all_channels rest (emit (ChannelShutdown ch AWS_ERROR_HTTP_CONNECTION_CLOSED) w)"

definition aws_http_server_release ::
  "aws_http_server option \<Rightarrow> world \<Rightarrow> aws_http_server option \<times> world" where
  "aws_http_server_release server w =
     (case server of
        None \<Rightarrow> (None, w)
      | Some s \<Rightarrow>
          (let w1 = s_server_lock_synced_data w;
               already_shutting_down = is_shutting_down (synced_data s);
               s1 = (if already_shutting_down then s
                     else s\<lparr>synced_data := (synced_data s)\<lparr>is_shutting_down := True\<rparr>\<rparr>);
               w2 = (if \<not> already_shutting_down
                     then s_shutdown_all_channels (channel_to_connection_map (synced_data s1)) w1
                     else w1);
               w3 = s_server_unlock_synced_data w2
           in if already_shutting_down then (Some s1, w3)
              else (Some s1, emit DestroySocketListener w3)))"

text \<open>\<open>n\<close> consecutive calls of \<open>aws_http_server_release\<close> on one server.\<close>

fun aws_http_server_release_times ::
  "nat \<Rightarrow> aws_http_server \<Rightarrow> world \<Rightarrow> aws_http_server \<times> world" where
  "aws_http_server_release_times 0 s w = (s, w)"
| "aws_http_server_release_times (Suc n) s w =
     (case aws_http_server_release (Some s) w of
        (Some s', w') \<Rightarrow> aws_http_server_release_times n s' w'
      | (None, w') \<Rightarrow> (s, w'))"

text \<open>
  How the server bootstrap (another library) answers: its listener is what calls
  \<open>s_server_bootstrap_on_server_listener_destroy\<close>, and it does so once for each
  destruction requested through \<^verbatim>\<open>aws_server_bootstrap_destroy_socket_listener\<close>, after the
  requests were made (in the words of the source: ``after all existing connections finish
  shutting down, the s_server_bootstrap_on_server_listener_destroy will be invoked, clean
  up of the server will be there'').
\<close>

fun listener_destroy_callbacks :: "event list \<Rightarrow> aws_http_server \<Rightarrow> world \<Rightarrow> world" where
  "listener_destroy_callbacks [] s w = w"
| "listener_destroy_callbacks (ev # evs) s w =
     listener_destroy_callbacks evs s
       (if ev = DestroySocketListener then s_server_bootstrap_on_server_listener_destroy s w
        else w)"

definition server_release_run :: "nat \<Rightarrow> aws_http_server \<Rightarrow> world \<Rightarrow> aws_http_server \<times> world" where
  "server_release_run n s w =
     (case aws_http_server_release_times n s w of
        (s', w') \<Rightarrow> (s', listener_destroy_callbacks (new_events w w') s' w'))"

section \<open>Client connect\<close>

text \<open>
  \<^verbatim>\<open>struct aws_http_client_bootstrap\<close>, its fields prefixed with \<open>cb_\<close>. The user's callbacks
  \<^verbatim>\<open>on_setup\<close> and \<^verbatim>\<open>on_shutdown\<close> are nullable function pointers; invoking one is an event.
\<close>

record aws_http_client_bootstrap =
  cb_is_using_tls :: bool
  cb_manual_window_management :: bool
  cb_initial_window_size :: "64 word"
  cb_user_data :: "user_ptr option"
  cb_on_setup :: "callback option"
  cb_on_shutdown :: "callback option"
  cb_proxy_request_transform :: "callback option"
  cb_http2_options :: aws_http2_connection_options
  cb_connection :: "(conn_ptr \<times> aws_http_connection) option"

text \<open>
  The end of \<^verbatim>\<open>s_client_bootstrap_on_channel_setup\<close>, from the assignment of
  \<^verbatim>\<open>proxy_request_transform\<close> on: the user is told of the connection and \<^verbatim>\<open>on_setup\<close> is
  cleared. \<open>None\<close> is a call through a null \<^verbatim>\<open>on_setup\<close>.
\<close>

definition s_client_bootstrap_on_channel_setup_success ::
  "aws_http_client_bootstrap \<Rightarrow> conn_ptr \<Rightarrow> aws_http_connection \<Rightarrow> world \<Rightarrow>
     (aws_http_client_bootstrap \<times> world) option" where
  "s_client_bootstrap_on_channel_setup_success http_bootstrap p c w =
     (let c' = c\<lparr>proxy_request_transform := cb_proxy_request_transform http_bootstrap,
                 user_data := cb_user_data http_bootstrap\<rparr>
      in case cb_on_setup http_bootstrap of
           None \<Rightarrow> None
         | Some f \<Rightarrow>
             Some (http_bootstrap\<lparr>cb_connection := Some (p, c'), cb_on_setup := None\<rparr>,
                   emit (OnSetup (Some p) AWS_ERROR_SUCCESS) w))"

text \<open>
  \<open>None\<close> is the abort of \<^verbatim>\<open>AWS_FATAL_ASSERT((error_code != 0) == (channel == NULL))\<close>, or a
  call through a null \<^verbatim>\<open>on_setup\<close>.
\<close>

definition s_client_bootstrap_on_channel_setup ::
  "collaborators \<Rightarrow> aws_error \<Rightarrow> channel option \<Rightarrow> aws_http_client_bootstrap \<Rightarrow> world \<Rightarrow>
     (aws_http_client_bootstrap \<times> world) option" where
  "s_client_bootstrap_on_channel_setup env error_code chan http_bootstrap w =
     (if (error_code \<noteq> AWS_ERROR_SUCCESS) \<noteq> (chan = None) then None
      else if error_code \<noteq> AWS_ERROR_SUCCESS
      then (case cb_on_setup http_bootstrap of
              None \<Rightarrow> None
            | Some f \<Rightarrow>
                Some (http_bootstrap,
                      emit MemReleaseBootstrap (emit (OnSetup None error_code) w)))
      else
     (case chan of
        None \<Rightarrow> None
      | Some ch \<Rightarrow>
     (case s_connection_new env ch False (cb_is_using_tls http_bootstrap)
             (cb_manual_window_management http_bootstrap)
             (cb_initial_window_size http_bootstrap)
             (Some (cb_http2_options http_bootstrap)) w of
        (None, w1) \<Rightarrow>
          Some (http_bootstrap\<lparr>cb_connection := None\<rparr>,
                emit (ChannelShutdown ch (last_error w1)) w1)
      | (Some (p, c), w1) \<Rightarrow>
          (let b1 = http_bootstrap\<lparr>cb_connection := Some (p, c)\<rparr>
           in if aws_http_connection_monitoring_options_is_valid env
              then (case aws_crt_statistics_handler_new_http_connection_monitor env of
                      Some e \<Rightarrow>
                        (let w2 = snd (aws_raise_error e w1)
                         in Some (b1, emit (ChannelShutdown ch (last_error w2)) w2))
                    | None \<Rightarrow>
                        s_client_bootstrap_on_channel_setup_success b1 p c
                          (emit (ChannelSetStatisticsHandler ch) w1))
              else s_client_bootstrap_on_channel_setup_success b1 p c w1))))"

definition s_client_bootstrap_on_channel_shutdown ::
  "aws_error \<Rightarrow> channel option \<Rightarrow> aws_http_client_bootstrap \<Rightarrow> world \<Rightarrow> world" where
  "s_client_bootstrap_on_channel_shutdown error_code chan http_bootstrap w =
     emit MemReleaseBootstrap
       (if cb_on_setup http_bootstrap \<noteq> None
        then (let error_code' = (if error_code = AWS_ERROR_SUCCESS then AWS_ERROR_UNKNOWN
                                 else error_code)
              in emit (OnSetup None error_code') w)
        else if cb_on_shutdown http_bootstrap \<noteq> None
        then emit (OnShutdown (map_option fst (cb_connection http_bootstrap)) error_code) w
        else w)"

text \<open>
  How the channel bootstrap (another library) drives the two callbacks, as the comments of
  the source state it: a failed transport setup calls the setup callback with the error
  and no channel, and ``no channel exists, so there will be no channel_shutdown
  callback''; otherwise the setup callback gets the channel, and the channel's shutdown,
  whenever it completes, calls the shutdown callback once with the shutdown's error code.
\<close>

datatype transport_outcome =
    TransportFailed aws_error
  | TransportEstablished channel aws_error

definition client_connect_run ::
  "collaborators \<Rightarrow> transport_outcome \<Rightarrow> aws_http_client_bootstrap \<Rightarrow> world \<Rightarrow> world option" where
  "client_connect_run env outcome http_bootstrap w =
     (case outcome of
        TransportFailed e \<Rightarrow>
          map_option snd (s_client_bootstrap_on_channel_setup env e None http_bootstrap w)
      | TransportEstablished ch shutdown_code \<Rightarrow>
          (case s_client_bootstrap_on_channel_setup env AWS_ERROR_SUCCESS (Some ch)
                  http_bootstrap w of
             None \<Rightarrow> None
           | Some (b', w') \<Rightarrow>
               Some (s_client_bootstrap_on_channel_shutdown shutdown_code (Some ch) b' w')))"

text \<open>The invocations of the user's callbacks in a trace.\<close>

fun is_OnSetup :: "event \<Rightarrow> bool" where
  "is_OnSetup (OnSetup p e) = True"
| "is_OnSetup ev = False"

fun is_OnShutdown :: "event \<Rightarrow> bool" where
  "is_OnShutdown (OnShutdown p e) = True"
| "is_OnShutdown ev = False"

fun is_OnIncomingConnection :: "event \<Rightarrow> bool" where
  "is_OnIncomingConnection (OnIncomingConnection p e) = True"
| "is_OnIncomingConnection ev = False"

section \<open>Notions used in the statements\<close>

text \<open>A stretch of trace without any invocation of a user callback of the bootstraps.\<close>

definition quiet :: "event list \<Rightarrow> bool" where
  "quiet evs = (\<forall>ev\<in>set evs. \<not> is_OnSetup ev \<and> \<not> is_OnShutdown ev \<and> \<not> is_OnIncomingConnection ev)"

text \<open>
  The convention of the underlying libraries: a call that fails raises a non-zero error.
\<close>

definition failures_raise_nonzero :: "collaborators \<Rightarrow> bool" where
  "failures_raise_nonzero env =
     (aws_channel_slot_new env \<noteq> Some AWS_ERROR_SUCCESS \<and>
      aws_channel_slot_insert_end env \<noteq> Some AWS_ERROR_SUCCESS \<and>
      (\<forall>m i. aws_http_connection_new_http1_1_server env m i \<noteq> Inl AWS_ERROR_SUCCESS) \<and>
      (\<forall>m i. aws_http_connection_new_http1_1_client env m i \<noteq> Inl AWS_ERROR_SUCCESS) \<and>
      (\<forall>m i. aws_http_connection_new_http2_server env m i \<noteq> Inl AWS_ERROR_SUCCESS) \<and>
      (\<forall>m i. aws_http_connection_new_http2_client env m i \<noteq> Inl AWS_ERROR_SUCCESS) \<and>
      (\<forall>b. aws_channel_slot_set_handler env \<noteq> Some (AWS_ERROR_SUCCESS, b)) \<and>
      aws_hash_table_put env \<noteq> Some AWS_ERROR_SUCCESS \<and>
      aws_crt_statistics_handler_new_http_connection_monitor env \<noteq> Some AWS_ERROR_SUCCESS)"

section \<open>Example values\<close>

text \<open>Concrete inputs at which the theorems below are instantiated.\<close>

definition example_world :: world where
  "example_world = \<lparr>last_error = AWS_ERROR_SUCCESS, events = []\<rparr>"

definition example_client :: aws_http_connection where
  "example_client =
     \<lparr>http_version = AWS_HTTP_VERSION_1_1, channel_slot = 7, user_data = None,
      proxy_request_transform = None, client_data = Some (), server_data = None,
      refcount = 1, next_stream_id = 1\<rparr>"

definition exhausted_client :: aws_http_connection where
  "exhausted_client = example_client\<lparr>next_stream_id := 0x80000001\<rparr>"

definition example_vtable :: aws_http_connection_vtable where
  "example_vtable =
     \<lparr>change_settings = (\<lambda>c s cb ud w. (AWS_OP_SUCCESS, c\<lparr>user_data := ud\<rparr>, emit MutexLock w)),
      send_ping = (\<lambda>c d cb ud w. (AWS_OP_SUCCESS, c\<lparr>user_data := ud\<rparr>, emit MutexLock w)),
      send_goaway = (\<lambda>c e a d w. (AWS_OP_SUCCESS, c\<lparr>next_stream_id := e\<rparr>, emit MutexLock w)),
      get_sent_goaway = (\<lambda>c out w. (AWS_OP_SUCCESS, (1, 3), c, emit MutexLock w)),
      get_received_goaway = (\<lambda>c out w. (AWS_OP_SUCCESS, (2, 5), c, emit MutexLock w)),
      get_local_settings = (\<lambda>c out w. ([(1, 4096)], emit MutexLock w)),
      get_remote_settings = (\<lambda>c out w. ([(3, 100)], emit MutexLock w))\<rparr>"

definition example_server_conn :: aws_http_connection where
  "example_server_conn =
     \<lparr>http_version = AWS_HTTP_VERSION_1_1, channel_slot = 7, user_data = None,
      proxy_request_transform = None, client_data = None,
      server_data = Some \<lparr>on_incoming_request = None, on_shutdown = None\<rparr>,
      refcount = 1, next_stream_id = 2\<rparr>"

definition example_options :: aws_http_server_connection_options where
  "example_options =
     \<lparr>opt_connection_user_data = Some 11, opt_on_incoming_request = Some 12,
      opt_on_shutdown = Some 13\<rparr>"

definition example_bad_options :: aws_http_server_connection_options where
  "example_bad_options = example_options\<lparr>opt_on_incoming_request := None\<rparr>"

definition example_env :: collaborators where
  "example_env =
     \<lparr>aws_channel_slot_new = None,
      aws_channel_slot_insert_end = None,
      adj_left_handler = Some ''h2'',
      aws_http_connection_new_http1_1_server = (\<lambda>m i. Inr (21, example_server_conn)),
      aws_http_connection_new_http1_1_client = (\<lambda>m i. Inr (22, example_client)),
      aws_http_connection_new_http2_server =
        (\<lambda>m h. Inr (23, example_server_conn\<lparr>http_version := AWS_HTTP_VERSION_2\<rparr>)),
      aws_http_connection_new_http2_client =
        (\<lambda>m h. Inr (24, example_client\<lparr>http_version := AWS_HTTP_VERSION_2\<rparr>)),
      aws_channel_slot_set_handler = None,
      on_channel_handler_installed = (\<lambda>c ch. c\<lparr>channel_slot := ch\<rparr>),
      aws_hash_table_put = None,
      aws_http_connection_monitoring_options_is_valid = False,
      aws_crt_statistics_handler_new_http_connection_monitor = None\<rparr>"

definition other_alpn_env :: collaborators where
  "other_alpn_env = example_env\<lparr>adj_left_handler := Some ''spdy/3''\<rparr>"

definition no_alpn_env :: collaborators where
  "no_alpn_env = example_env\<lparr>adj_left_handler := Some []\<rparr>"

definition example_server :: aws_http_server where
  "example_server =
     \<lparr>is_using_tls = False, manual_window_management = False, initial_window_size = 65535,
      server_user_data = None, on_incoming_connection = (\<lambda>c. c),
      on_destroy_complete = Some 31, socket = 1,
      synced_data = \<lparr>is_shutting_down = False, channel_to_connection_map = [(3, 21), (4, 25)]\<rparr>\<rparr>"

definition configured_server_conn :: aws_http_connection where
  "configured_server_conn =
     example_server_conn
       \<lparr>user_data := Some 11,
        server_data := Some \<lparr>on_incoming_request = Some 12, on_shutdown = Some 13\<rparr>\<rparr>"

definition example_bootstrap :: aws_http_client_bootstrap where
  "example_bootstrap =
     \<lparr>cb_is_using_tls = False, cb_manual_window_management = False,
      cb_initial_window_size = 65535, cb_user_data = Some 40,
      cb_on_setup = Some 41, cb_on_shutdown = Some 42,
      cb_proxy_request_transform = None,
      cb_http2_options = \<lparr>initial_settings_array = None, num_initial_settings = 0\<rparr>,
      cb_connection = None\<rparr>"

definition failing_slot_env :: collaborators where
  "failing_slot_env = example_env\<lparr>aws_channel_slot_new := Some (AWS_ERROR_OTHER 5)\<rparr>"

definition failing_put_env :: collaborators where
  "failing_put_env = example_env\<lparr>aws_hash_table_put := Some (AWS_ERROR_OTHER 6)\<rparr>"

definition shutting_down_server :: aws_http_server where
  "shutting_down_server =
     example_server\<lparr>synced_data :=
       \<lparr>is_shutting_down = True, channel_to_connection_map = [(3, 21), (4, 25)]\<rparr>\<rparr>"

section \<open>Stream ids: properties\<close>

lemma MAX_STREAM_ID_unat: "unat MAX_STREAM_ID = 2147483647"
  by (simp add: MAX_STREAM_ID_def mask_eq_exp_minus_1)

lemma gt_MAX_iff: "(x > MAX_STREAM_ID) = (2147483647 < unat x)"
  by (simp add: word_less_nat_alt MAX_STREAM_ID_unat)

lemma get_next_valid:
  "unat (next_stream_id c) \<le> 2147483647 \<Longrightarrow>
   aws_http_connection_get_next_stream_id c w =
     (next_stream_id c, c\<lparr>next_stream_id := next_stream_id c + 2\<rparr>, w)"
  by (simp add: aws_http_connection_get_next_stream_id_def gt_MAX_iff Let_def)

lemma get_next_exhausted:
  "2147483647 < unat (next_stream_id c) \<Longrightarrow>
   aws_http_connection_get_next_stream_id c w =
     (0, c, w\<lparr>last_error := AWS_ERROR_HTTP_STREAM_IDS_EXHAUSTED\<rparr>)"
  by (simp add: aws_http_connection_get_next_stream_id_def gt_MAX_iff Let_def aws_raise_error_def)

lemma unat_plus2: "unat (s :: 32 word) \<le> 2147483647 \<Longrightarrow> unat (s + 2) = unat s + 2"
  by (simp add: unat_word_ariths)

lemma get_stream_ids_run:
  "unat (next_stream_id c) + 2 * n \<le> 2147483649 \<Longrightarrow>
   get_stream_ids n c w =
     (map (\<lambda>k. next_stream_id c + 2 * of_nat k) [0..<n],
      c\<lparr>next_stream_id := next_stream_id c + 2 * of_nat n\<rparr>, w)"
proof (induction n arbitrary: c)
  case 0
  then show ?case by simp
next
  case (Suc n)
  have le: "unat (next_stream_id c) \<le> 2147483647" using Suc.prems by simp
  let ?c = "c\<lparr>next_stream_id := next_stream_id c + 2\<rparr>"
  have "unat (next_stream_id ?c) + 2 * n \<le> 2147483649"
    using Suc.prems le by (simp add: unat_plus2)
  from Suc.IH [OF this] show ?case
    by (simp add: get_next_valid [OF le] map_upt_Suc algebra_simps del: upt_Suc)
qed

lemma unat_id: "k < 1073741824 \<Longrightarrow> unat (1 + 2 * of_nat k :: 32 word) = 2 * k + 1"
  by (simp add: unat_word_ariths unat_of_nat take_bit_nat_eq_self)


text \<open>
  Claim C3. On a fresh client connection (\<open>next_stream_id = 1\<close>), \<open>N\<close> consecutive calls
  of \<open>aws_http_connection_get_next_stream_id\<close> return, for every \<open>N \<le> 2 ^ 30\<close> (which
  covers every \<open>N\<close> up to \<open>(2 ^ 31 - 1) / 2\<close>), the ids \<open>1, 3, 5, \<dots>\<close>: the \<open>i\<close>-th is
  \<open>2 * i + 1\<close>, so they are odd, non-zero, at most \<open>MAX_STREAM_ID\<close>, strictly increasing,
  spaced by 2 and pairwise distinct, and no error is raised. The \<open>2 ^ 30\<close>-th call returns
  the last valid id \<open>MAX_STREAM_ID\<close>; the call after it returns the sentinel 0 and raises
  \<open>AWS_ERROR_HTTP_STREAM_IDS_EXHAUSTED\<close>.
\<close>

theorem stream_ids_fresh_client:
  assumes fresh: "next_stream_id c = 1" and N: "N \<le> 2 ^ 30"
  shows "(case get_stream_ids N c w of (ids, c', w') \<Rightarrow>
            length ids = N \<and> w' = w \<and>
            (\<forall>i<N. unat (ids ! i) = 2 * i + 1 \<and> odd (unat (ids ! i)) \<and>
                    ids ! i \<noteq> 0 \<and> ids ! i \<le> MAX_STREAM_ID) \<and>
            (\<forall>i. Suc i < N \<longrightarrow> ids ! i < ids ! Suc i \<and>
                    unat (ids ! Suc i) = unat (ids ! i) + 2) \<and>
            distinct ids) \<and>
         (case get_stream_ids (2 ^ 30) c w of (ids, c', w') \<Rightarrow>
            last ids = MAX_STREAM_ID \<and>
            aws_http_connection_get_next_stream_id c' w' =
              (0, c', w\<lparr>last_error := AWS_ERROR_HTTP_STREAM_IDS_EXHAUSTED\<rparr>))"
proof -
  let ?f = "\<lambda>k. (1 + 2 * of_nat k :: 32 word)"
  have run: "get_stream_ids n c w =
      (map ?f [0..<n], c\<lparr>next_stream_id := 1 + 2 * of_nat n\<rparr>, w)"
    if "n \<le> 2 ^ 30" for n
    using get_stream_ids_run [of c n w] that fresh by simp
  have val: "unat (?f k) = 2 * k + 1" if "k < N" for k
    using unat_id [of k] that N by simp
  have nth: "map ?f [0..<N] ! i = ?f i" if "i < N" for i
    using that by simp
  have inj: "inj_on ?f {0..<N}"
  proof (rule inj_onI)
    fix x y assume "x \<in> {0..<N}" "y \<in> {0..<N}" "?f x = ?f y"
    then have "unat (?f x) = unat (?f y)" "x < N" "y < N" by simp_all
    then show "x = y" using val by simp
  qed
  have A: "\<forall>i<N. unat (?f i) = 2 * i + 1 \<and> odd (unat (?f i)) \<and> ?f i \<noteq> 0 \<and> ?f i \<le> MAX_STREAM_ID"
  proof (intro allI impI)
    fix i assume i: "i < N"
    have v: "unat (?f i) = 2 * i + 1" by (rule val [OF i])
    have "?f i \<noteq> 0" using v by (metis Suc_eq_plus1 nat.simps(3) unat_0)
    moreover have "?f i \<le> MAX_STREAM_ID"
      using v i N by (simp add: word_le_nat_alt MAX_STREAM_ID_unat)
    ultimately show "unat (?f i) = 2 * i + 1 \<and> odd (unat (?f i)) \<and> ?f i \<noteq> 0 \<and> ?f i \<le> MAX_STREAM_ID"
      using v by simp
  qed
  have B: "\<forall>i. Suc i < N \<longrightarrow> ?f i < ?f (Suc i) \<and> unat (?f (Suc i)) = unat (?f i) + 2"
  proof (intro allI impI)
    fix i assume i: "Suc i < N"
    then have "unat (?f i) = 2 * i + 1" "unat (?f (Suc i)) = 2 * Suc i + 1"
      using val [of i] val [of "Suc i"] by simp_all
    then show "?f i < ?f (Suc i) \<and> unat (?f (Suc i)) = unat (?f i) + 2"
      by (simp add: word_less_nat_alt)
  qed
  have C: "distinct (map ?f [0..<N])"
    using inj by (simp add: distinct_map)
  have first: "(case get_stream_ids N c w of (ids, c', w') \<Rightarrow>
            length ids = N \<and> w' = w \<and>
            (\<forall>i<N. unat (ids ! i) = 2 * i + 1 \<and> odd (unat (ids ! i)) \<and>
                    ids ! i \<noteq> 0 \<and> ids ! i \<le> MAX_STREAM_ID) \<and>
            (\<forall>i. Suc i < N \<longrightarrow> ids ! i < ids ! Suc i \<and>
                    unat (ids ! Suc i) = unat (ids ! i) + 2) \<and>
            distinct ids)"
    using A B C by (simp add: run [OF N] del: upt_Suc)
  let ?c = "c\<lparr>next_stream_id := 1 + 2 * of_nat (2 ^ 30)\<rparr>"
  have nxt: "unat (next_stream_id ?c) = 2147483649"
    by (simp add: unat_word_ariths)
  have lst: "last (map ?f [0..<2 ^ 30]) = MAX_STREAM_ID"
  proof -
    have "last (map ?f [0..<2 ^ 30]) = ?f (2 ^ 30 - 1)"
      by (simp add: last_map last_upt)
    also have "\<dots> = MAX_STREAM_ID"
      by (simp add: MAX_STREAM_ID_def mask_eq_exp_minus_1)
    finally show ?thesis .
  qed
  have r30: "get_stream_ids (2 ^ 30) c w = (map ?f [0..<2 ^ 30], ?c, w)"
    by (rule run) simp
  have second: "(case get_stream_ids (2 ^ 30) c w of (ids, c', w') \<Rightarrow>
            last ids = MAX_STREAM_ID \<and>
            aws_http_connection_get_next_stream_id c' w' =
              (0, c', w\<lparr>last_error := AWS_ERROR_HTTP_STREAM_IDS_EXHAUSTED\<rparr>))"
    unfolding r30 prod.case
    using lst get_next_exhausted [of ?c w] nxt by simp
  from first second show ?thesis by (rule conjI)
qed

theorem stream_ids_fresh_client_witness:
  "next_stream_id example_client = 1 \<and> (3::nat) \<le> 2 ^ 30 \<and>
   fst (get_stream_ids 3 example_client example_world) = [1, 3, 5] \<and>
   (case get_stream_ids 3 example_client example_world of (ids, c', w') \<Rightarrow>
      length ids = 3 \<and> w' = example_world \<and> distinct ids \<and>
      (\<forall>i<3. unat (ids ! i) = 2 * i + 1))"
proof -
  have h1: "next_stream_id example_client = 1" by (simp add: example_client_def)
  have h2: "(3::nat) \<le> 2 ^ 30" by simp
  have e: "fst (get_stream_ids 3 example_client example_world) = [1, 3, 5]"
    by code_simp
  show ?thesis
    using stream_ids_fresh_client [OF h1 h2, of example_world] h1 h2 e
    by (auto split: prod.splits)
qed

lemma get_stream_ids_exhausted:
  "2147483647 < unat (next_stream_id c) \<Longrightarrow>
   get_stream_ids n c w =
     (replicate n 0, c,
      if n = 0 then w else w\<lparr>last_error := AWS_ERROR_HTTP_STREAM_IDS_EXHAUSTED\<rparr>)"
proof (induction n arbitrary: w)
  case 0
  then show ?case by simp
next
  case (Suc n)
  show ?case
    using Suc.IH [OF Suc.prems, of "w\<lparr>last_error := AWS_ERROR_HTTP_STREAM_IDS_EXHAUSTED\<rparr>"]
    by (simp add: get_next_exhausted [OF Suc.prems])
qed

text \<open>
  Claim C10. Once the counter is beyond \<open>MAX_STREAM_ID\<close>, a call returns 0, raises
  \<open>AWS_ERROR_HTTP_STREAM_IDS_EXHAUSTED\<close> and returns the connection unchanged (the counter
  included); hence any number \<open>n\<close> of further calls all return 0, leave the connection as
  it was, and leave the same error raised.
\<close>

theorem stream_ids_exhausted_stable:
  assumes "next_stream_id c > MAX_STREAM_ID"
  shows "aws_http_connection_get_next_stream_id c w =
           (0, c, w\<lparr>last_error := AWS_ERROR_HTTP_STREAM_IDS_EXHAUSTED\<rparr>) \<and>
         get_stream_ids n c w =
           (replicate n 0, c,
            if n = 0 then w else w\<lparr>last_error := AWS_ERROR_HTTP_STREAM_IDS_EXHAUSTED\<rparr>)"
  using assms get_next_exhausted [of c w] get_stream_ids_exhausted [of c n w]
  by (simp add: gt_MAX_iff)

theorem stream_ids_exhausted_stable_witness:
  "next_stream_id exhausted_client > MAX_STREAM_ID \<and>
   aws_http_connection_get_next_stream_id exhausted_client example_world =
     (0, exhausted_client, example_world\<lparr>last_error := AWS_ERROR_HTTP_STREAM_IDS_EXHAUSTED\<rparr>) \<and>
   get_stream_ids 3 exhausted_client example_world =
     ([0, 0, 0], exhausted_client,
      example_world\<lparr>last_error := AWS_ERROR_HTTP_STREAM_IDS_EXHAUSTED\<rparr>)"
proof -
  have h: "next_stream_id exhausted_client > MAX_STREAM_ID"
    by (simp add: exhausted_client_def gt_MAX_iff)
  have r: "replicate 3 (0 :: 32 word) = [0, 0, 0]"
    by (simp add: numeral_3_eq_3)
  show ?thesis
    using stream_ids_exhausted_stable [OF h, of example_world 3] h r
    by simp
qed

section \<open>Traces: helper lemmas\<close>

lemma events_emit: "events (emit ev w) = events w @ [ev]"
  by (simp add: emit_def)

lemma last_error_emit: "last_error (emit ev w) = last_error w"
  by (simp add: emit_def)

lemma new_events_append: "events w' = events w @ evs \<Longrightarrow> new_events w w' = evs"
  by (simp add: new_events_def)

lemma s_connection_new_quiet:
  assumes "s_connection_new env ch is_server using_tls mw iw h2o w = (r, w')"
  shows "\<exists>evs. events w' = events w @ evs \<and> quiet evs"
  using assms
  by (auto simp add: s_connection_new_def s_connection_new_switch_def s_connection_new_error_def
      aws_raise_error_def events_emit quiet_def
      split: option.splits prod.splits sum.splits aws_http_version.splits if_splits)

lemma s_connection_new_None:
  assumes "s_connection_new env ch is_server using_tls mw iw h2o w = (None, w')"
    and "failures_raise_nonzero env"
  shows "last_error w' \<noteq> AWS_ERROR_SUCCESS"
  using assms
  by (auto simp add: s_connection_new_def s_connection_new_switch_def s_connection_new_error_def
      aws_raise_error_def last_error_emit failures_raise_nonzero_def
      split: option.splits prod.splits sum.splits aws_http_version.splits if_splits)

lemma release_events:
  "aws_http_connection_release c w = (c', w') \<Longrightarrow>
   \<exists>evs. events w' = events w @ evs \<and> quiet evs \<and> last_error w' = last_error w"
  by (auto simp add: aws_http_connection_release_def Let_def events_emit last_error_emit quiet_def
      split: if_splits)

lemma accept_error_events:
  "s_server_bootstrap_on_accept_channel_setup_error e invoked chan conn w = (conn', w') \<Longrightarrow>
   \<exists>evs. events w' = events w @ evs \<and>
     length (filter is_OnIncomingConnection evs) = (if invoked then 0 else 1)"
  apply (simp add: s_server_bootstrap_on_accept_channel_setup_error_def Let_def
      split: option.splits prod.splits if_splits)
         apply (auto simp add: events_emit quiet_def filter_empty_conv dest!: release_events)
  done

section \<open>HTTP/2-only operations: properties\<close>

lemma s_check_http2_connection_other:
  "http_version c \<noteq> AWS_HTTP_VERSION_2 \<Longrightarrow>
   s_check_http2_connection c w = (AWS_OP_ERR, w\<lparr>last_error := AWS_ERROR_INVALID_STATE\<rparr>)"
  by (simp add: s_check_http2_connection_def aws_raise_error_def)

text \<open>
  Claim C7. On a connection whose version is not HTTP/2, each of the seven HTTP/2-only
  operations returns \<open>AWS_OP_ERR\<close> with \<open>AWS_ERROR_INVALID_STATE\<close> raised, and returns the
  connection, the out-parameters and the rest of the world as they were. The result
  holds for every vtable and does not mention it: no vtable entry is invoked.
\<close>

theorem http2_only_operations_reject:
  assumes "http_version c \<noteq> AWS_HTTP_VERSION_2"
  shows "aws_http2_connection_change_settings vt c settings on_completed ud w =
           (AWS_OP_ERR, c, w\<lparr>last_error := AWS_ERROR_INVALID_STATE\<rparr>) \<and>
         aws_http2_connection_ping vt c opaque on_ack ud w =
           (AWS_OP_ERR, c, w\<lparr>last_error := AWS_ERROR_INVALID_STATE\<rparr>) \<and>
         aws_http2_connection_send_goaway vt c http2_error allow_more debug w =
           (AWS_OP_ERR, c, w\<lparr>last_error := AWS_ERROR_INVALID_STATE\<rparr>) \<and>
         aws_http2_connection_get_local_settings vt c out_settings w =
           (AWS_OP_ERR, out_settings, w\<lparr>last_error := AWS_ERROR_INVALID_STATE\<rparr>) \<and>
         aws_http2_connection_get_remote_settings vt c out_settings w =
           (AWS_OP_ERR, out_settings, w\<lparr>last_error := AWS_ERROR_INVALID_STATE\<rparr>) \<and>
         aws_http2_connection_get_sent_goaway vt c out w =
           (AWS_OP_ERR, out, c, w\<lparr>last_error := AWS_ERROR_INVALID_STATE\<rparr>) \<and>
         aws_http2_connection_get_received_goaway vt c out w =
           (AWS_OP_ERR, out, c, w\<lparr>last_error := AWS_ERROR_INVALID_STATE\<rparr>)"
  using s_check_http2_connection_other [OF assms, of w]
  by (simp add: aws_http2_connection_change_settings_def aws_http2_connection_ping_def
      aws_http2_connection_send_goaway_def aws_http2_connection_get_local_settings_def
      aws_http2_connection_get_remote_settings_def aws_http2_connection_get_sent_goaway_def
      aws_http2_connection_get_received_goaway_def AWS_OP_ERR_def)

theorem http2_only_operations_reject_witness:
  "http_version example_client \<noteq> AWS_HTTP_VERSION_2 \<and>
   aws_http2_connection_change_settings example_vtable example_client [(1, 4096)] None (Some 5)
       example_world =
     (AWS_OP_ERR, example_client, example_world\<lparr>last_error := AWS_ERROR_INVALID_STATE\<rparr>) \<and>
   aws_http2_connection_ping example_vtable example_client None None (Some 5) example_world =
     (AWS_OP_ERR, example_client, example_world\<lparr>last_error := AWS_ERROR_INVALID_STATE\<rparr>) \<and>
   aws_http2_connection_send_goaway example_vtable example_client 9 False None example_world =
     (AWS_OP_ERR, example_client, example_world\<lparr>last_error := AWS_ERROR_INVALID_STATE\<rparr>) \<and>
   aws_http2_connection_get_local_settings example_vtable example_client [] example_world =
     (AWS_OP_ERR, [], example_world\<lparr>last_error := AWS_ERROR_INVALID_STATE\<rparr>) \<and>
   aws_http2_connection_get_remote_settings example_vtable example_client [] example_world =
     (AWS_OP_ERR, [], example_world\<lparr>last_error := AWS_ERROR_INVALID_STATE\<rparr>) \<and>
   aws_http2_connection_get_sent_goaway example_vtable example_client (0, 0) example_world =
     (AWS_OP_ERR, (0, 0), example_client,
      example_world\<lparr>last_error := AWS_ERROR_INVALID_STATE\<rparr>) \<and>
   aws_http2_connection_get_received_goaway example_vtable example_client (0, 0) example_world =
     (AWS_OP_ERR, (0, 0), example_client,
      example_world\<lparr>last_error := AWS_ERROR_INVALID_STATE\<rparr>)"
proof -
  have h: "http_version example_client \<noteq> AWS_HTTP_VERSION_2"
    by (simp add: example_client_def)
  show ?thesis
    using h
      http2_only_operations_reject [OF h, of example_vtable "[(1, 4096)]" None "Some 5"
        example_world None None 9 False None "[]" "(0, 0)"]
    by simp
qed

section \<open>Reference counting: properties\<close>

lemma unat_acquire:
  "Suc (unat (x :: 64 word)) < 2 ^ 64 \<Longrightarrow> unat (x + 1) = Suc (unat x)"
  by (simp add: unat_word_ariths)

lemma unat_release: "0 < unat (x :: 64 word) \<Longrightarrow> unat (x - 1) = unat x - 1"
  by (metis unat_minus_one unat_0 less_numeral_extra(3))

lemma refcount_ops_held:
  "held (unat (refcount c)) ops \<Longrightarrow> refcount c \<noteq> 0 \<Longrightarrow>
   (case refcount_ops ops c w of
      (c', w') \<Rightarrow>
        events w' = events w @
          (if refcount c' = 0
           then [ChannelShutdown (channel_slot c) AWS_ERROR_SUCCESS,
                 ChannelReleaseHold (channel_slot c)]
           else []))"
proof (induction ops arbitrary: c w)
  case Nil
  then show ?case by simp
next
  case (Cons op ops)
  show ?case
  proof (cases op)
    case Acquire
    let ?c = "aws_http_connection_acquire c"
    from Cons.prems Acquire have h: "Suc (unat (refcount c)) < 2 ^ 64"
      "held (Suc (unat (refcount c))) ops" by simp_all
    have u: "unat (refcount ?c) = Suc (unat (refcount c))"
      using unat_acquire [OF h(1)] by (simp add: aws_http_connection_acquire_def)
    then have nz: "refcount ?c \<noteq> 0" by (metis nat.simps(3) unat_0)
    have ch: "channel_slot ?c = channel_slot c" by (simp add: aws_http_connection_acquire_def)
    from Cons.IH [of ?c w] h(2) u nz ch Acquire show ?thesis
      by (auto split: prod.splits)
  next
    case Release
    from Cons.prems Release have h: "0 < unat (refcount c)"
      "unat (refcount c) = 1 \<longrightarrow> ops = []" "held (unat (refcount c) - 1) ops" by simp_all
    show ?thesis
    proof (cases "refcount c = 1")
      case True
      then have "ops = []" using h(2) by simp
      with True Release show ?thesis
        by (simp add: aws_http_connection_release_def emit_def Let_def)
    next
      case False
      let ?c = "c\<lparr>refcount := refcount c - 1\<rparr>"
      have r: "aws_http_connection_release c w = (?c, w)"
        using False by (simp add: aws_http_connection_release_def Let_def)
      have u: "unat (refcount ?c) = unat (refcount c) - 1"
        using unat_release [OF h(1)] by simp
      have "unat (refcount c) \<noteq> 1" using False by (simp add: word_unat_eq_iff)
      with h(1) u have nz: "refcount ?c \<noteq> 0"
        by (metis One_nat_def Suc_pred unat_0)
      from Cons.IH [of ?c w] h(3) u nz Release r show ?thesis
        by (auto split: prod.splits)
    qed
  qed
qed

text \<open>
  Claim C4. \<open>aws_http_connection_acquire\<close> adds one to the refcount and
  \<open>aws_http_connection_release\<close> subtracts one, each changing nothing else of the
  connection. A release requests the channel's shutdown and then releases the channel's
  hold, in this order, exactly when it takes the refcount to zero; any other release adds
  no event. In neither case is the connection's handler destroyed by the call, and no
  error is raised. Over a sequence of calls on a referenced connection, these two events
  are the only ones, and they appear exactly when the sequence ends with the count at
  zero: no earlier release performs either action.
\<close>

theorem refcount_release_final:
  "aws_http_connection_acquire c = c\<lparr>refcount := refcount c + 1\<rparr> \<and>
   (case aws_http_connection_release c w of
      (c', w') \<Rightarrow>
        c' = c\<lparr>refcount := refcount c - 1\<rparr> \<and>
        last_error w' = last_error w \<and>
        events w' = events w @
          (if refcount c' = 0
           then [ChannelShutdown (channel_slot c) AWS_ERROR_SUCCESS,
                 ChannelReleaseHold (channel_slot c)]
           else [])) \<and>
   (held (unat (refcount c)) ops \<and> refcount c \<noteq> 0 \<longrightarrow>
      (case refcount_ops ops c w of
         (c', w') \<Rightarrow>
           events w' = events w @
             (if refcount c' = 0
              then [ChannelShutdown (channel_slot c) AWS_ERROR_SUCCESS,
                    ChannelReleaseHold (channel_slot c)]
              else [])))"
proof -
  have "aws_http_connection_acquire c = c\<lparr>refcount := refcount c + 1\<rparr>"
    by (simp add: aws_http_connection_acquire_def)
  moreover have "(case aws_http_connection_release c w of
      (c', w') \<Rightarrow>
        c' = c\<lparr>refcount := refcount c - 1\<rparr> \<and>
        last_error w' = last_error w \<and>
        events w' = events w @
          (if refcount c' = 0
           then [ChannelShutdown (channel_slot c) AWS_ERROR_SUCCESS,
                 ChannelReleaseHold (channel_slot c)]
           else []))"
    by (simp add: aws_http_connection_release_def emit_def Let_def)
  moreover have "held (unat (refcount c)) ops \<and> refcount c \<noteq> 0 \<longrightarrow>
      (case refcount_ops ops c w of
         (c', w') \<Rightarrow>
           events w' = events w @
             (if refcount c' = 0
              then [ChannelShutdown (channel_slot c) AWS_ERROR_SUCCESS,
                    ChannelReleaseHold (channel_slot c)]
              else []))"
    by (intro impI, elim conjE) (rule refcount_ops_held)
  ultimately show ?thesis by (intro conjI)
qed

theorem refcount_release_final_witness:
  "held (unat (refcount example_client)) [Acquire, Release, Acquire, Release, Release] \<and>
   refcount example_client \<noteq> 0 \<and>
   refcount_ops [Acquire, Release, Acquire, Release, Release] example_client example_world =
     (example_client\<lparr>refcount := 0\<rparr>,
      example_world\<lparr>events := [ChannelShutdown 7 AWS_ERROR_SUCCESS, ChannelReleaseHold 7]\<rparr>) \<and>
   aws_http_connection_release (aws_http_connection_acquire example_client) example_world =
     (example_client, example_world)"
proof -
  have h: "held (unat (refcount example_client)) [Acquire, Release, Acquire, Release, Release]"
    "refcount example_client \<noteq> 0"
    by (simp_all add: example_client_def)
  have r: "refcount_ops [Acquire, Release, Acquire, Release, Release] example_client
      example_world =
     (example_client\<lparr>refcount := 0\<rparr>,
      example_world\<lparr>events := [ChannelShutdown 7 AWS_ERROR_SUCCESS, ChannelReleaseHold 7]\<rparr>)"
    by (simp add: example_client_def example_world_def aws_http_connection_acquire_def
        aws_http_connection_release_def emit_def)
  have a: "aws_http_connection_release (aws_http_connection_acquire example_client)
      example_world = (example_client, example_world)"
    by (simp add: example_client_def example_world_def aws_http_connection_acquire_def
        aws_http_connection_release_def)
  show ?thesis
    using h r a
      refcount_release_final [of example_client example_world
        "[Acquire, Release, Acquire, Release, Release]"]
    by simp
qed

section \<open>Server configuration of a connection: properties\<close>

text \<open>
  Claim C8, as stated, fails: a call on a client connection whose options carry no
  incoming-request handler fails with \<open>AWS_ERROR_INVALID_ARGUMENT\<close>, not with
  \<open>AWS_ERROR_INVALID_STATE\<close>, because the arguments are checked first.
\<close>

theorem configure_server_once_counterexample:
  "client_data example_client = Some () \<and> server_data example_client = None \<and>
   aws_http_connection_configure_server (Some example_client) (Some example_bad_options)
       example_world =
     (AWS_OP_ERR, Some example_client,
      example_world\<lparr>last_error := AWS_ERROR_INVALID_ARGUMENT\<rparr>) \<and>
   last_error (snd (snd (aws_http_connection_configure_server (Some example_client)
       (Some example_bad_options) example_world))) \<noteq> AWS_ERROR_INVALID_STATE"
  by (simp add: aws_http_connection_configure_server_def aws_raise_error_def
      example_client_def example_bad_options_def example_options_def)

text \<open>
  Claim C8, amended. With valid options (a non-null incoming-request handler): on a server
  connection that has no handler yet the call succeeds and stores the handler, the
  shutdown callback and the user data, and a second call with valid options then fails
  with \<open>AWS_ERROR_INVALID_STATE\<close>; on a client connection (no server data) and on a server
  connection that already has a handler the call fails with \<open>AWS_ERROR_INVALID_STATE\<close>.
  With invalid arguments (no connection, no options, or options without a handler) the
  call fails with \<open>AWS_ERROR_INVALID_ARGUMENT\<close>. Every failing call leaves the connection
  as it was.
\<close>

theorem configure_server_once:
  "(opt_on_incoming_request opts \<noteq> None \<longrightarrow>
      (case server_data c of
         None \<Rightarrow>
           aws_http_connection_configure_server (Some c) (Some opts) w =
             (AWS_OP_ERR, Some c, w\<lparr>last_error := AWS_ERROR_INVALID_STATE\<rparr>)
       | Some sd \<Rightarrow>
           if on_incoming_request sd = None
           then (let c1 = c\<lparr>user_data := opt_connection_user_data opts,
                            server_data :=
                              Some (sd\<lparr>on_incoming_request := opt_on_incoming_request opts,
                                       on_shutdown := opt_on_shutdown opts\<rparr>)\<rparr>
                 in aws_http_connection_configure_server (Some c) (Some opts) w =
                      (AWS_OP_SUCCESS, Some c1, w) \<and>
                    (opt_on_incoming_request opts2 \<noteq> None \<longrightarrow>
                       aws_http_connection_configure_server (Some c1) (Some opts2) w2 =
                         (AWS_OP_ERR, Some c1, w2\<lparr>last_error := AWS_ERROR_INVALID_STATE\<rparr>)))
           else aws_http_connection_configure_server (Some c) (Some opts) w =
                  (AWS_OP_ERR, Some c, w\<lparr>last_error := AWS_ERROR_INVALID_STATE\<rparr>))) \<and>
   (opt_on_incoming_request opts = None \<longrightarrow>
      aws_http_connection_configure_server (Some c) (Some opts) w =
        (AWS_OP_ERR, Some c, w\<lparr>last_error := AWS_ERROR_INVALID_ARGUMENT\<rparr>)) \<and>
   aws_http_connection_configure_server (Some c) None w =
     (AWS_OP_ERR, Some c, w\<lparr>last_error := AWS_ERROR_INVALID_ARGUMENT\<rparr>) \<and>
   aws_http_connection_configure_server None options w =
     (AWS_OP_ERR, None, w\<lparr>last_error := AWS_ERROR_INVALID_ARGUMENT\<rparr>)"
  by (auto simp add: aws_http_connection_configure_server_def aws_raise_error_def Let_def
      split: option.splits)

theorem configure_server_once_witness:
  "opt_on_incoming_request example_options \<noteq> None \<and>
   server_data example_server_conn = Some \<lparr>on_incoming_request = None, on_shutdown = None\<rparr> \<and>
   aws_http_connection_configure_server (Some example_server_conn) (Some example_options)
       example_world =
     (AWS_OP_SUCCESS, Some configured_server_conn, example_world) \<and>
   aws_http_connection_configure_server (Some configured_server_conn) (Some example_options)
       example_world =
     (AWS_OP_ERR, Some configured_server_conn,
      example_world\<lparr>last_error := AWS_ERROR_INVALID_STATE\<rparr>) \<and>
   server_data example_client = None \<and>
   aws_http_connection_configure_server (Some example_client) (Some example_options)
       example_world =
     (AWS_OP_ERR, Some example_client, example_world\<lparr>last_error := AWS_ERROR_INVALID_STATE\<rparr>)"
proof -
  have h: "opt_on_incoming_request example_options \<noteq> None"
    by (simp add: example_options_def)
  have sd: "server_data example_server_conn =
      Some \<lparr>on_incoming_request = None, on_shutdown = None\<rparr>"
    by (simp add: example_server_conn_def)
  have c1: "example_server_conn
        \<lparr>user_data := opt_connection_user_data example_options,
         server_data :=
           Some \<lparr>on_incoming_request = opt_on_incoming_request example_options,
                 on_shutdown = opt_on_shutdown example_options\<rparr>\<rparr> = configured_server_conn"
    by (simp add: configured_server_conn_def example_options_def)
  have cl: "server_data example_client = None"
    by (simp add: example_client_def)
  show ?thesis
    using h sd cl
      configure_server_once [of example_options example_server_conn example_world
        example_options example_world]
      configure_server_once [of example_options example_client example_world]
    by (simp add: c1 Let_def)
qed


section \<open>Version negotiation: properties\<close>

text \<open>
  Claim C2. Once the slot is created and inserted, and with a TLS handler to the left of it
  when TLS is in use, \<open>s_connection_new\<close> decides HTTP/2 exactly when TLS is in use and the
  negotiated protocol string is \<open>''h2''\<close>, and HTTP/1.1 otherwise: without TLS, for
  \<open>''http/1.1''\<close>, for the empty string and for every other string. The decision raises no
  error: the call invokes the constructor of the decided version and role, and its whole
  result is given by that constructor and the installation of the handler. In particular,
  when these two succeed, the call returns the constructor's connection with the events
  of the construction and the installation only, and with the last error as it was.
\<close>

theorem negotiated_version:
  assumes slot: "aws_channel_slot_new env = None" "aws_channel_slot_insert_end env = None"
    and tls: "using_tls \<longrightarrow> adj_left_handler env = Some protocol"
  shows
    "s_connection_new env ch is_server using_tls mw iw h2o w =
       (let version = (if using_tls \<and> protocol = ''h2'' then AWS_HTTP_VERSION_2
                       else AWS_HTTP_VERSION_1_1);
            w1 = w\<lparr>events := events w @ [NewConnection version is_server]\<rparr>
        in case (if version = AWS_HTTP_VERSION_2
                 then (if is_server then aws_http_connection_new_http2_server env mw h2o
                       else aws_http_connection_new_http2_client env mw h2o)
                 else (if is_server then aws_http_connection_new_http1_1_server env mw iw
                       else aws_http_connection_new_http1_1_client env mw iw)) of
             Inl e \<Rightarrow>
               (None, w1\<lparr>last_error := e, events := events w1 @ [ChannelSlotRemove ch]\<rparr>)
           | Inr (p, c) \<Rightarrow>
               (case aws_channel_slot_set_handler env of
                  None \<Rightarrow>
                    (Some (p, on_channel_handler_installed env c ch),
                     w1\<lparr>events := events w1 @ [ChannelHandlerInstalled ch p]\<rparr>)
                | Some (e, handler_set) \<Rightarrow>
                    (None,
                     w1\<lparr>last_error := e,
                        events := events w1 @
                          (if handler_set then [] else [ChannelHandlerDestroy p]) @
                          [ChannelSlotRemove ch]\<rparr>))) \<and>
     (aws_channel_slot_set_handler env = None \<and>
      (\<not> using_tls \<or> protocol \<noteq> ''h2'') \<and>
      (if is_server then aws_http_connection_new_http1_1_server env mw iw
       else aws_http_connection_new_http1_1_client env mw iw) = Inr (p1, c1) \<longrightarrow>
        s_connection_new env ch is_server using_tls mw iw h2o w =
          (Some (p1, on_channel_handler_installed env c1 ch),
           w\<lparr>events := events w @
                [NewConnection AWS_HTTP_VERSION_1_1 is_server,
                 ChannelHandlerInstalled ch p1]\<rparr>)) \<and>
     (aws_channel_slot_set_handler env = None \<and> using_tls \<and> protocol = ''h2'' \<and>
      (if is_server then aws_http_connection_new_http2_server env mw h2o
       else aws_http_connection_new_http2_client env mw h2o) = Inr (p2, c2) \<longrightarrow>
        s_connection_new env ch is_server using_tls mw iw h2o w =
          (Some (p2, on_channel_handler_installed env c2 ch),
           w\<lparr>events := events w @
                [NewConnection AWS_HTTP_VERSION_2 is_server,
                 ChannelHandlerInstalled ch p2]\<rparr>)) \<and>
     s_connection_new_version using_tls (adj_left_handler env) =
       Some (if using_tls \<and> protocol = ''h2'' then AWS_HTTP_VERSION_2
             else AWS_HTTP_VERSION_1_1)"
proof -
  let ?version = "if using_tls \<and> protocol = ''h2'' then AWS_HTTP_VERSION_2
                  else AWS_HTTP_VERSION_1_1"
  have ver: "s_connection_new_version using_tls (adj_left_handler env) = Some ?version"
    using tls by (simp add: s_connection_new_version_def)
  have exact: "s_connection_new env ch is_server using_tls mw iw h2o w =
       (let version = ?version;
            w1 = w\<lparr>events := events w @ [NewConnection version is_server]\<rparr>
        in case (if version = AWS_HTTP_VERSION_2
                 then (if is_server then aws_http_connection_new_http2_server env mw h2o
                       else aws_http_connection_new_http2_client env mw h2o)
                 else (if is_server then aws_http_connection_new_http1_1_server env mw iw
                       else aws_http_connection_new_http1_1_client env mw iw)) of
             Inl e \<Rightarrow>
               (None, w1\<lparr>last_error := e, events := events w1 @ [ChannelSlotRemove ch]\<rparr>)
           | Inr (p, c) \<Rightarrow>
               (case aws_channel_slot_set_handler env of
                  None \<Rightarrow>
                    (Some (p, on_channel_handler_installed env c ch),
                     w1\<lparr>events := events w1 @ [ChannelHandlerInstalled ch p]\<rparr>)
                | Some (e, handler_set) \<Rightarrow>
                    (None,
                     w1\<lparr>last_error := e,
                        events := events w1 @
                          (if handler_set then [] else [ChannelHandlerDestroy p]) @
                          [ChannelSlotRemove ch]\<rparr>)))"
    using slot tls
    by (auto simp add: s_connection_new_def s_connection_new_version_def
        s_connection_new_switch_def s_connection_new_error_def aws_raise_error_def emit_def
        Let_def split: option.splits prod.splits sum.splits)
  have h1: "aws_channel_slot_set_handler env = None \<and>
      (\<not> using_tls \<or> protocol \<noteq> ''h2'') \<and>
      (if is_server then aws_http_connection_new_http1_1_server env mw iw
       else aws_http_connection_new_http1_1_client env mw iw) = Inr (p1, c1) \<longrightarrow>
        s_connection_new env ch is_server using_tls mw iw h2o w =
          (Some (p1, on_channel_handler_installed env c1 ch),
           w\<lparr>events := events w @
                [NewConnection AWS_HTTP_VERSION_1_1 is_server,
                 ChannelHandlerInstalled ch p1]\<rparr>)"
    unfolding exact by (auto simp add: Let_def)
  have h2: "aws_channel_slot_set_handler env = None \<and> using_tls \<and> protocol = ''h2'' \<and>
      (if is_server then aws_http_connection_new_http2_server env mw h2o
       else aws_http_connection_new_http2_client env mw h2o) = Inr (p2, c2) \<longrightarrow>
        s_connection_new env ch is_server using_tls mw iw h2o w =
          (Some (p2, on_channel_handler_installed env c2 ch),
           w\<lparr>events := events w @
                [NewConnection AWS_HTTP_VERSION_2 is_server,
                 ChannelHandlerInstalled ch p2]\<rparr>)"
    unfolding exact by (auto simp add: Let_def)
  from exact h1 h2 ver show ?thesis by (intro conjI)
qed


theorem negotiated_version_witness:
  "aws_channel_slot_new other_alpn_env = None \<and>
   aws_channel_slot_insert_end other_alpn_env = None \<and>
   adj_left_handler other_alpn_env = Some ''spdy/3'' \<and> ''spdy/3'' \<noteq> ''h2'' \<and>
   s_connection_new other_alpn_env 3 False True False 65535 None example_world =
     (Some (22, example_client\<lparr>channel_slot := 3\<rparr>),
      example_world\<lparr>events := [NewConnection AWS_HTTP_VERSION_1_1 False,
                                  ChannelHandlerInstalled 3 22]\<rparr>) \<and>
   adj_left_handler no_alpn_env = Some [] \<and>
   s_connection_new no_alpn_env 3 True True False 65535 None example_world =
     (Some (21, example_server_conn\<lparr>channel_slot := 3\<rparr>),
      example_world\<lparr>events := [NewConnection AWS_HTTP_VERSION_1_1 True,
                                  ChannelHandlerInstalled 3 21]\<rparr>) \<and>
   adj_left_handler example_env = Some ''h2'' \<and>
   s_connection_new example_env 3 False True False 65535 None example_world =
     (Some (24, example_client\<lparr>http_version := AWS_HTTP_VERSION_2, channel_slot := 3\<rparr>),
      example_world\<lparr>events := [NewConnection AWS_HTTP_VERSION_2 False,
                                  ChannelHandlerInstalled 3 24]\<rparr>) \<and>
   s_connection_new example_env 3 False False False 65535 None example_world =
     (Some (22, example_client\<lparr>channel_slot := 3\<rparr>),
      example_world\<lparr>events := [NewConnection AWS_HTTP_VERSION_1_1 False,
                                  ChannelHandlerInstalled 3 22]\<rparr>)"
proof -
  have s: "aws_channel_slot_new other_alpn_env = None"
    "aws_channel_slot_insert_end other_alpn_env = None"
    "aws_channel_slot_new no_alpn_env = None"
    "aws_channel_slot_insert_end no_alpn_env = None"
    "aws_channel_slot_new example_env = None"
    "aws_channel_slot_insert_end example_env = None"
    by (simp_all add: other_alpn_env_def no_alpn_env_def example_env_def)
  have h: "adj_left_handler other_alpn_env = Some ''spdy/3''"
    "adj_left_handler no_alpn_env = Some []"
    "adj_left_handler example_env = Some ''h2''"
    by (simp_all add: other_alpn_env_def no_alpn_env_def example_env_def)
  have ev: "events example_world = []"
    by (simp add: example_world_def)
  have a: "s_connection_new other_alpn_env 3 False True False 65535 None example_world =
     (Some (22, example_client\<lparr>channel_slot := 3\<rparr>),
      example_world\<lparr>events := [NewConnection AWS_HTTP_VERSION_1_1 False,
                                  ChannelHandlerInstalled 3 22]\<rparr>)"
    using negotiated_version [where env = other_alpn_env and using_tls = True
        and protocol = "''spdy/3''" and ch = 3 and is_server = False and mw = False
        and iw = 65535 and ?h2o.0 = None and w = example_world, OF s(1) s(2)] h(1)
    by (simp add: ev other_alpn_env_def example_env_def)
  have b: "s_connection_new no_alpn_env 3 True True False 65535 None example_world =
     (Some (21, example_server_conn\<lparr>channel_slot := 3\<rparr>),
      example_world\<lparr>events := [NewConnection AWS_HTTP_VERSION_1_1 True,
                                  ChannelHandlerInstalled 3 21]\<rparr>)"
    using negotiated_version [where env = no_alpn_env and using_tls = True
        and protocol = "[]" and ch = 3 and is_server = True and mw = False
        and iw = 65535 and ?h2o.0 = None and w = example_world, OF s(3) s(4)] h(2)
    by (simp add: ev no_alpn_env_def example_env_def)
  have c: "s_connection_new example_env 3 False True False 65535 None example_world =
     (Some (24, example_client\<lparr>http_version := AWS_HTTP_VERSION_2, channel_slot := 3\<rparr>),
      example_world\<lparr>events := [NewConnection AWS_HTTP_VERSION_2 False,
                                  ChannelHandlerInstalled 3 24]\<rparr>)"
    using negotiated_version [where env = example_env and using_tls = True
        and protocol = "''h2''" and ch = 3 and is_server = False and mw = False
        and iw = 65535 and ?h2o.0 = None and w = example_world, OF s(5) s(6)] h(3)
    by (simp add: ev example_env_def)
  have d: "s_connection_new example_env 3 False False False 65535 None example_world =
     (Some (22, example_client\<lparr>channel_slot := 3\<rparr>),
      example_world\<lparr>events := [NewConnection AWS_HTTP_VERSION_1_1 False,
                                  ChannelHandlerInstalled 3 22]\<rparr>)"
    using negotiated_version [where env = example_env and using_tls = False
        and protocol = "''h2''" and ch = 3 and is_server = False and mw = False
        and iw = 65535 and ?h2o.0 = None and w = example_world, OF s(5) s(6)]
    by (simp add: ev example_env_def)
  from s(1,2) h a b c d show ?thesis by simp
qed

section \<open>Server release: properties\<close>

lemma s_shutdown_all_channels_events:
  "s_shutdown_all_channels m w =
     w\<lparr>events := events w @
          map (\<lambda>(ch, p). ChannelShutdown ch AWS_ERROR_HTTP_CONNECTION_CLOSED) m\<rparr>"
  by (induction m w rule: s_shutdown_all_channels.induct) (simp_all add: emit_def)

lemma server_release_first:
  "\<not> is_shutting_down (synced_data s) \<Longrightarrow>
   aws_http_server_release (Some s) w =
     (Some (s\<lparr>synced_data := (synced_data s)\<lparr>is_shutting_down := True\<rparr>\<rparr>),
      w\<lparr>events := events w @ [MutexLock] @
           map (\<lambda>(ch, p). ChannelShutdown ch AWS_ERROR_HTTP_CONNECTION_CLOSED)
             (channel_to_connection_map (synced_data s)) @
           [MutexUnlock, DestroySocketListener]\<rparr>)"
  by (simp add: aws_http_server_release_def s_server_lock_synced_data_def
      s_server_unlock_synced_data_def s_shutdown_all_channels_events emit_def)

lemma server_release_again:
  "is_shutting_down (synced_data s) \<Longrightarrow>
   aws_http_server_release (Some s) w = (Some s, w\<lparr>events := events w @ [MutexLock, MutexUnlock]\<rparr>)"
  by (simp add: aws_http_server_release_def s_server_lock_synced_data_def
      s_server_unlock_synced_data_def emit_def)

lemma server_release_times_again:
  "is_shutting_down (synced_data s) \<Longrightarrow>
   aws_http_server_release_times n s w =
     (s, w\<lparr>events := events w @ concat (replicate n [MutexLock, MutexUnlock])\<rparr>)"
proof (induction n arbitrary: w)
  case 0
  then show ?case by simp
next
  case (Suc n)
  show ?case
    using Suc.IH [OF Suc.prems, of "w\<lparr>events := events w @ [MutexLock, MutexUnlock]\<rparr>"]
    by (simp add: server_release_again [OF Suc.prems])
qed

lemma listener_destroy_callbacks_append:
  "listener_destroy_callbacks (xs @ ys) s w =
     listener_destroy_callbacks ys s (listener_destroy_callbacks xs s w)"
  by (induction xs arbitrary: w) simp_all

lemma listener_destroy_callbacks_none:
  "DestroySocketListener \<notin> set evs \<Longrightarrow> listener_destroy_callbacks evs s w = w"
  by (induction evs arbitrary: w) auto

lemma locks_no_destroy: "DestroySocketListener \<notin> set (concat (replicate n [MutexLock, MutexUnlock]))"
  by (induction n) simp_all

lemma filter_locks [simp]:
  "filter (\<lambda>ev. ev = DestroySocketListener) (concat (replicate n [MutexLock, MutexUnlock])) = []"
  "filter (\<lambda>ev. ev = OnDestroyComplete) (concat (replicate n [MutexLock, MutexUnlock])) = []"
  by (induction n) simp_all

text \<open>
  Claim C5. On a server that is not yet shutting down, the first
  \<open>aws_http_server_release\<close> sets the flag, requests, between taking and releasing the
  lock, the shutdown of every channel that is a key of the map, leaves the map as it is,
  and asks for the listener's destruction; a further call only takes and releases the
  lock and changes nothing. Hence \<open>n + 1\<close> calls make one broadcast and one request to
  destroy the listener, and the listener's destroy callback that answers it invokes
  \<open>on_destroy_complete\<close> once (when the user supplied it).
\<close>

theorem server_release_once:
  assumes "\<not> is_shutting_down (synced_data s)"
  shows "(case aws_http_server_release (Some s) w of
            (s1, w1) \<Rightarrow>
              s1 = Some (s\<lparr>synced_data := (synced_data s)\<lparr>is_shutting_down := True\<rparr>\<rparr>) \<and>
              new_events w w1 =
                [MutexLock] @
                map (\<lambda>(ch, p). ChannelShutdown ch AWS_ERROR_HTTP_CONNECTION_CLOSED)
                  (channel_to_connection_map (synced_data s)) @
                [MutexUnlock, DestroySocketListener] \<and>
              (case aws_http_server_release s1 w1 of
                 (s2, w2) \<Rightarrow> s2 = s1 \<and> new_events w1 w2 = [MutexLock, MutexUnlock] \<and>
                    last_error w2 = last_error w)) \<and>
         (case server_release_run (Suc n) s w of
            (s', w') \<Rightarrow>
              s' = s\<lparr>synced_data := (synced_data s)\<lparr>is_shutting_down := True\<rparr>\<rparr> \<and>
              new_events w w' =
                [MutexLock] @
                map (\<lambda>(ch, p). ChannelShutdown ch AWS_ERROR_HTTP_CONNECTION_CLOSED)
                  (channel_to_connection_map (synced_data s)) @
                [MutexUnlock, DestroySocketListener] @
                concat (replicate n [MutexLock, MutexUnlock]) @
                (if on_destroy_complete s \<noteq> None then [OnDestroyComplete] else []) @
                [MemReleaseServer] \<and>
              length (filter (\<lambda>ev. ev = DestroySocketListener) (new_events w w')) = 1 \<and>
              length (filter (\<lambda>ev. ev = OnDestroyComplete) (new_events w w')) =
                (if on_destroy_complete s \<noteq> None then 1 else 0))"
proof -
  let ?s = "s\<lparr>synced_data := (synced_data s)\<lparr>is_shutting_down := True\<rparr>\<rparr>"
  let ?bc = "map (\<lambda>(ch, p). ChannelShutdown ch AWS_ERROR_HTTP_CONNECTION_CLOSED)
                  (channel_to_connection_map (synced_data s))"
  let ?first = "[MutexLock] @ ?bc @ [MutexUnlock, DestroySocketListener]"
  let ?w1 = "w\<lparr>events := events w @ ?first\<rparr>"
  let ?locks = "concat (replicate n [MutexLock, MutexUnlock])"
  let ?w2 = "?w1\<lparr>events := events ?w1 @ ?locks\<rparr>"
  have sd: "is_shutting_down (synced_data ?s)" by simp
  have bc: "DestroySocketListener \<notin> set ?bc" "filter (\<lambda>ev. ev = DestroySocketListener) ?bc = []"
    "filter (\<lambda>ev. ev = OnDestroyComplete) ?bc = []"
    by (auto simp add: filter_empty_conv)
  have one: "aws_http_server_release (Some s) w = (Some ?s, ?w1)"
    using server_release_first [OF assms] by simp
  have two: "aws_http_server_release (Some ?s) ?w1 =
      (Some ?s, ?w1\<lparr>events := events ?w1 @ [MutexLock, MutexUnlock]\<rparr>)"
    by (rule server_release_again [OF sd])
  have A: "(case aws_http_server_release (Some s) w of
            (s1, w1) \<Rightarrow>
              s1 = Some ?s \<and> new_events w w1 = ?first \<and>
              (case aws_http_server_release s1 w1 of
                 (s2, w2) \<Rightarrow> s2 = s1 \<and> new_events w1 w2 = [MutexLock, MutexUnlock] \<and>
                    last_error w2 = last_error w))"
  proof -
    have n1: "new_events w ?w1 = ?first"
      by (rule new_events_append) simp
    have n2: "new_events ?w1 (?w1\<lparr>events := events ?w1 @ [MutexLock, MutexUnlock]\<rparr>) =
        [MutexLock, MutexUnlock]"
      by (rule new_events_append) simp
    have n3: "last_error (?w1\<lparr>events := events ?w1 @ [MutexLock, MutexUnlock]\<rparr>) = last_error w"
      by simp
    show ?thesis
      unfolding one prod.case two using n1 n2 n3 by blast
  qed
  have times: "aws_http_server_release_times (Suc n) s w = (?s, ?w2)"
    using server_release_times_again [OF sd, of n ?w1] by (simp add: one)
  have ne: "new_events w ?w2 = ?first @ ?locks"
    by (rule new_events_append) simp
  have cb: "listener_destroy_callbacks (?first @ ?locks) ?s ?w2 =
      s_server_bootstrap_on_server_listener_destroy ?s ?w2"
    using bc(1) locks_no_destroy [of n]
    by (simp add: listener_destroy_callbacks_append listener_destroy_callbacks_none)
  have run: "server_release_run (Suc n) s w =
      (?s, s_server_bootstrap_on_server_listener_destroy ?s ?w2)"
    unfolding server_release_run_def times prod.case ne cb ..
  have B: "(case server_release_run (Suc n) s w of
            (s', w') \<Rightarrow>
              s' = ?s \<and>
              new_events w w' = ?first @ ?locks @
                (if on_destroy_complete s \<noteq> None then [OnDestroyComplete] else []) @
                [MemReleaseServer] \<and>
              length (filter (\<lambda>ev. ev = DestroySocketListener) (new_events w w')) = 1 \<and>
              length (filter (\<lambda>ev. ev = OnDestroyComplete) (new_events w w')) =
                (if on_destroy_complete s \<noteq> None then 1 else 0))"
  proof -
    let ?last = "(if on_destroy_complete s \<noteq> None then [OnDestroyComplete] else []) @
                [MemReleaseServer]"
    have "events (s_server_bootstrap_on_server_listener_destroy ?s ?w2) =
        events w @ ?first @ ?locks @ ?last"
      by (simp add: s_server_bootstrap_on_server_listener_destroy_def s_http_server_clean_up_def
          emit_def)
    from new_events_append [OF this]
    have n: "new_events w (s_server_bootstrap_on_server_listener_destroy ?s ?w2) =
        ?first @ ?locks @ ?last" .
    show ?thesis
      unfolding run prod.case n using bc(2,3) by simp
  qed
  from A B show ?thesis by simp
qed

theorem server_release_once_witness:
  "\<not> is_shutting_down (synced_data example_server) \<and>
   (case server_release_run 2 example_server example_world of
      (s', w') \<Rightarrow>
        is_shutting_down (synced_data s') \<and>
        channel_to_connection_map (synced_data s') = [(3, 21), (4, 25)] \<and>
        new_events example_world w' =
          [MutexLock,
           ChannelShutdown 3 AWS_ERROR_HTTP_CONNECTION_CLOSED,
           ChannelShutdown 4 AWS_ERROR_HTTP_CONNECTION_CLOSED,
           MutexUnlock, DestroySocketListener,
           MutexLock, MutexUnlock,
           OnDestroyComplete, MemReleaseServer])"
proof -
  have h: "\<not> is_shutting_down (synced_data example_server)"
    by (simp add: example_server_def)
  have m: "channel_to_connection_map (synced_data example_server) = [(3, 21), (4, 25)]"
    "on_destroy_complete example_server \<noteq> None"
    by (simp_all add: example_server_def)
  have two: "Suc 1 = 2" by simp
  show ?thesis
    using h server_release_once [OF h, of example_world 1]
    unfolding two
    by (auto simp add: m split: prod.splits)
qed

section \<open>Evaluations at the example values\<close>

lemma example_server_connection_new:
  "s_connection_new example_env 5 True False False 65535 None example_world =
     (Some (21, example_server_conn\<lparr>channel_slot := 5\<rparr>),
      example_world\<lparr>events := [NewConnection AWS_HTTP_VERSION_1_1 True,
                                  ChannelHandlerInstalled 5 21]\<rparr>)"
  by (simp add: s_connection_new_def s_connection_new_version_def s_connection_new_switch_def
      example_env_def example_world_def emit_def)

lemma example_client_connection_new:
  "s_connection_new example_env 3 False False False 65535
       (Some \<lparr>initial_settings_array = None, num_initial_settings = 0\<rparr>) example_world =
     (Some (22, example_client\<lparr>channel_slot := 3\<rparr>),
      example_world\<lparr>events := [NewConnection AWS_HTTP_VERSION_1_1 False,
                                  ChannelHandlerInstalled 3 22]\<rparr>)"
  by (simp add: s_connection_new_def s_connection_new_version_def s_connection_new_switch_def
      example_env_def example_world_def emit_def)

lemma failing_connection_new:
  "s_connection_new failing_slot_env ch is_server using_tls mw iw h2o example_world =
     (None, example_world\<lparr>last_error := AWS_ERROR_OTHER 5\<rparr>)"
  by (simp add: s_connection_new_def failing_slot_env_def example_env_def aws_raise_error_def)

section \<open>Accepting a channel: properties\<close>

lemma accept_error_unfold:
  "s_server_bootstrap_on_accept_channel_setup_error e invoked (Some ch) conn w =
     (let e' = (if e = AWS_ERROR_SUCCESS then last_error w else e);
          w2 = w\<lparr>events := events w @
                  (if invoked then [] else [OnIncomingConnection None e']) @
                  [ChannelShutdown ch e']\<rparr>
      in case conn of
           Some (p, c) \<Rightarrow>
             (case aws_http_connection_release c w2 of (c', w3) \<Rightarrow> (Some (p, c'), w3))
         | None \<Rightarrow> (None, w2))"
  by (cases conn) (auto simp add: s_server_bootstrap_on_accept_channel_setup_error_def Let_def emit_def)

text \<open>
  Claim C6. When the accepted channel's connection was created and the server is found
  shutting down in the critical section, the map is left as it is, the user's
  incoming-connection callback is invoked with no connection and the non-zero code
  \<open>AWS_ERROR_HTTP_CONNECTION_CLOSED\<close>, the channel is shut down with it, and the connection
  is released. When the creation of the connection fails, or the insertion into the map
  fails, the callback is likewise invoked once with no connection and the raised error
  (non-zero when failing collaborators raise non-zero errors), the channel is shut down
  with that error, the map is left as it is, and a connection that exists is released.
\<close>

theorem accept_rejected:
  "(s_connection_new env ch True (is_using_tls server) (manual_window_management server)
        (initial_window_size server) None w = (Some (p, c), w1) \<and>
    is_shutting_down (synced_data server) \<longrightarrow>
      AWS_ERROR_HTTP_CONNECTION_CLOSED \<noteq> AWS_ERROR_SUCCESS \<and>
      s_server_bootstrap_on_accept_channel_setup env server AWS_ERROR_SUCCESS (Some ch) w =
        (case aws_http_connection_release c
                (w1\<lparr>events := events w1 @
                      [MutexLock, MutexUnlock,
                       OnIncomingConnection None AWS_ERROR_HTTP_CONNECTION_CLOSED,
                       ChannelShutdown ch AWS_ERROR_HTTP_CONNECTION_CLOSED]\<rparr>) of
           (c', w') \<Rightarrow> Some (server, Some (p, c'), w'))) \<and>
   (s_connection_new env ch True (is_using_tls server) (manual_window_management server)
        (initial_window_size server) None w = (None, w1) \<longrightarrow>
      (failures_raise_nonzero env \<longrightarrow> last_error w1 \<noteq> AWS_ERROR_SUCCESS) \<and>
      s_server_bootstrap_on_accept_channel_setup env server AWS_ERROR_SUCCESS (Some ch) w =
        Some (server, None,
              w1\<lparr>events := events w1 @
                    [OnIncomingConnection None (last_error w1),
                     ChannelShutdown ch (last_error w1)]\<rparr>)) \<and>
   (s_connection_new env ch True (is_using_tls server) (manual_window_management server)
        (initial_window_size server) None w = (Some (p, c), w1) \<and>
    \<not> is_shutting_down (synced_data server) \<and> aws_hash_table_put env = Some e \<longrightarrow>
      (failures_raise_nonzero env \<longrightarrow> e \<noteq> AWS_ERROR_SUCCESS) \<and>
      s_server_bootstrap_on_accept_channel_setup env server AWS_ERROR_SUCCESS (Some ch) w =
        (case aws_http_connection_release c
                (w1\<lparr>last_error := e,
                    events := events w1 @
                      [MutexLock, MutexUnlock,
                       OnIncomingConnection None e, ChannelShutdown ch e]\<rparr>) of
           (c', w') \<Rightarrow> Some (server, Some (p, c'), w')))"
proof (intro conjI impI)
  assume a: "s_connection_new env ch True (is_using_tls server) (manual_window_management server)
        (initial_window_size server) None w = (Some (p, c), w1) \<and>
    is_shutting_down (synced_data server)"
  show "AWS_ERROR_HTTP_CONNECTION_CLOSED \<noteq> AWS_ERROR_SUCCESS" by simp
  show "s_server_bootstrap_on_accept_channel_setup env server AWS_ERROR_SUCCESS (Some ch) w =
        (case aws_http_connection_release c
                (w1\<lparr>events := events w1 @
                      [MutexLock, MutexUnlock,
                       OnIncomingConnection None AWS_ERROR_HTTP_CONNECTION_CLOSED,
                       ChannelShutdown ch AWS_ERROR_HTTP_CONNECTION_CLOSED]\<rparr>) of
           (c', w') \<Rightarrow> Some (server, Some (p, c'), w'))"
    using a
    by (simp add: s_server_bootstrap_on_accept_channel_setup_def accept_error_unfold
        s_server_lock_synced_data_def s_server_unlock_synced_data_def emit_def Let_def
        split: prod.splits)
next
  assume a: "s_connection_new env ch True (is_using_tls server) (manual_window_management server)
        (initial_window_size server) None w = (None, w1)"
  show "last_error w1 \<noteq> AWS_ERROR_SUCCESS" if "failures_raise_nonzero env"
    using s_connection_new_None [OF a that] .
  show "s_server_bootstrap_on_accept_channel_setup env server AWS_ERROR_SUCCESS (Some ch) w =
        Some (server, None,
              w1\<lparr>events := events w1 @
                    [OnIncomingConnection None (last_error w1),
                     ChannelShutdown ch (last_error w1)]\<rparr>)"
    using a
    by (simp add: s_server_bootstrap_on_accept_channel_setup_def accept_error_unfold Let_def)
next
  assume a: "s_connection_new env ch True (is_using_tls server) (manual_window_management server)
        (initial_window_size server) None w = (Some (p, c), w1) \<and>
    \<not> is_shutting_down (synced_data server) \<and> aws_hash_table_put env = Some e"
  show "e \<noteq> AWS_ERROR_SUCCESS" if "failures_raise_nonzero env"
    using a that by (auto simp add: failures_raise_nonzero_def)
  show "s_server_bootstrap_on_accept_channel_setup env server AWS_ERROR_SUCCESS (Some ch) w =
        (case aws_http_connection_release c
                (w1\<lparr>last_error := e,
                    events := events w1 @
                      [MutexLock, MutexUnlock,
                       OnIncomingConnection None e, ChannelShutdown ch e]\<rparr>) of
           (c', w') \<Rightarrow> Some (server, Some (p, c'), w'))"
    using a
    by (simp add: s_server_bootstrap_on_accept_channel_setup_def accept_error_unfold
        s_server_lock_synced_data_def s_server_unlock_synced_data_def emit_def Let_def
        aws_raise_error_def
        split: prod.splits)
qed

theorem accept_rejected_witness:
  "is_shutting_down (synced_data shutting_down_server) \<and>
   s_server_bootstrap_on_accept_channel_setup example_env shutting_down_server
       AWS_ERROR_SUCCESS (Some 5) example_world =
     Some (shutting_down_server,
           Some (21, example_server_conn\<lparr>channel_slot := 5, refcount := 0\<rparr>),
           example_world\<lparr>events :=
             [NewConnection AWS_HTTP_VERSION_1_1 True, ChannelHandlerInstalled 5 21,
              MutexLock, MutexUnlock,
              OnIncomingConnection None AWS_ERROR_HTTP_CONNECTION_CLOSED,
              ChannelShutdown 5 AWS_ERROR_HTTP_CONNECTION_CLOSED,
              ChannelShutdown 5 AWS_ERROR_SUCCESS, ChannelReleaseHold 5]\<rparr>) \<and>
   failures_raise_nonzero failing_slot_env \<and>
   s_server_bootstrap_on_accept_channel_setup failing_slot_env example_server
       AWS_ERROR_SUCCESS (Some 5) example_world =
     Some (example_server, None,
           \<lparr>last_error = AWS_ERROR_OTHER 5,
            events = [OnIncomingConnection None (AWS_ERROR_OTHER 5),
                      ChannelShutdown 5 (AWS_ERROR_OTHER 5)]\<rparr>) \<and>
   \<not> is_shutting_down (synced_data example_server) \<and>
   aws_hash_table_put failing_put_env = Some (AWS_ERROR_OTHER 6) \<and>
   s_server_bootstrap_on_accept_channel_setup failing_put_env example_server
       AWS_ERROR_SUCCESS (Some 5) example_world =
     Some (example_server,
           Some (21, example_server_conn\<lparr>channel_slot := 5, refcount := 0\<rparr>),
           \<lparr>last_error = AWS_ERROR_OTHER 6,
            events = [NewConnection AWS_HTTP_VERSION_1_1 True, ChannelHandlerInstalled 5 21,
                      MutexLock, MutexUnlock,
                      OnIncomingConnection None (AWS_ERROR_OTHER 6),
                      ChannelShutdown 5 (AWS_ERROR_OTHER 6),
                      ChannelShutdown 5 AWS_ERROR_SUCCESS, ChannelReleaseHold 5]\<rparr>)"
proof -
  let ?c = "example_server_conn\<lparr>channel_slot := 5\<rparr>"
  let ?w1 = "example_world\<lparr>events := [NewConnection AWS_HTTP_VERSION_1_1 True,
                                  ChannelHandlerInstalled 5 21]\<rparr>"
  have flds: "is_using_tls shutting_down_server = False"
    "manual_window_management shutting_down_server = False"
    "initial_window_size shutting_down_server = 65535"
    "is_using_tls example_server = False"
    "manual_window_management example_server = False"
    "initial_window_size example_server = 65535"
    by (simp_all add: shutting_down_server_def example_server_def)
  have sd: "is_shutting_down (synced_data shutting_down_server)"
    "\<not> is_shutting_down (synced_data example_server)"
    by (simp_all add: shutting_down_server_def example_server_def)
  have nz: "failures_raise_nonzero failing_slot_env"
    by (simp add: failures_raise_nonzero_def failing_slot_env_def example_env_def)
  have put: "aws_hash_table_put failing_put_env = Some (AWS_ERROR_OTHER 6)"
    by (simp add: failing_put_env_def)
  have cn_a: "s_connection_new example_env 5 True False False 65535 None example_world =
      (Some (21, ?c), ?w1)"
    by (rule example_server_connection_new)
  have cn_c: "s_connection_new failing_put_env 5 True False False 65535 None example_world =
      (Some (21, ?c), ?w1)"
    by (simp add: s_connection_new_def s_connection_new_version_def s_connection_new_switch_def
        failing_put_env_def example_env_def example_world_def emit_def)
  have cn_b: "s_connection_new failing_slot_env 5 True False False 65535 None example_world =
      (None, example_world\<lparr>last_error := AWS_ERROR_OTHER 5\<rparr>)"
    by (rule failing_connection_new)
  have rel: "aws_http_connection_release ?c ww =
      (example_server_conn\<lparr>channel_slot := 5, refcount := 0\<rparr>,
       ww\<lparr>events := events ww @ [ChannelShutdown 5 AWS_ERROR_SUCCESS, ChannelReleaseHold 5]\<rparr>)"
    for ww
    by (simp add: aws_http_connection_release_def example_server_conn_def emit_def)
  note inst_a = accept_rejected [where env = example_env and server = shutting_down_server
      and ch = 5 and w = example_world and p = 21 and c = ?c and ?w1.0 = ?w1]
  note inst_b = accept_rejected [where env = failing_slot_env and server = example_server
      and ch = 5 and w = example_world
      and ?w1.0 = "example_world\<lparr>last_error := AWS_ERROR_OTHER 5\<rparr>"]
  note inst_c = accept_rejected [where env = failing_put_env and server = example_server
      and ch = 5 and w = example_world and p = 21 and c = ?c and ?w1.0 = ?w1
      and e = "AWS_ERROR_OTHER 6"]
  have a: "s_server_bootstrap_on_accept_channel_setup example_env shutting_down_server
       AWS_ERROR_SUCCESS (Some 5) example_world =
     Some (shutting_down_server,
           Some (21, example_server_conn\<lparr>channel_slot := 5, refcount := 0\<rparr>),
           example_world\<lparr>events :=
             [NewConnection AWS_HTTP_VERSION_1_1 True, ChannelHandlerInstalled 5 21,
              MutexLock, MutexUnlock,
              OnIncomingConnection None AWS_ERROR_HTTP_CONNECTION_CLOSED,
              ChannelShutdown 5 AWS_ERROR_HTTP_CONNECTION_CLOSED,
              ChannelShutdown 5 AWS_ERROR_SUCCESS, ChannelReleaseHold 5]\<rparr>)"
    using inst_a cn_a sd(1) by (simp add: flds rel)
  have b: "s_server_bootstrap_on_accept_channel_setup failing_slot_env example_server
       AWS_ERROR_SUCCESS (Some 5) example_world =
     Some (example_server, None,
           \<lparr>last_error = AWS_ERROR_OTHER 5,
            events = [OnIncomingConnection None (AWS_ERROR_OTHER 5),
                      ChannelShutdown 5 (AWS_ERROR_OTHER 5)]\<rparr>)"
    using inst_b cn_b by (simp add: flds example_world_def)
  have c: "s_server_bootstrap_on_accept_channel_setup failing_put_env example_server
       AWS_ERROR_SUCCESS (Some 5) example_world =
     Some (example_server,
           Some (21, example_server_conn\<lparr>channel_slot := 5, refcount := 0\<rparr>),
           \<lparr>last_error = AWS_ERROR_OTHER 6,
            events = [NewConnection AWS_HTTP_VERSION_1_1 True, ChannelHandlerInstalled 5 21,
                      MutexLock, MutexUnlock,
                      OnIncomingConnection None (AWS_ERROR_OTHER 6),
                      ChannelShutdown 5 (AWS_ERROR_OTHER 6),
                      ChannelShutdown 5 AWS_ERROR_SUCCESS, ChannelReleaseHold 5]\<rparr>)"
    using inst_c cn_c sd(2) put by (simp add: flds rel example_world_def)
  from sd nz put a b c show ?thesis by (intro conjI)
qed

lemma quiet_filter: "quiet evs \<Longrightarrow> filter is_OnIncomingConnection evs = []"
  by (auto simp add: quiet_def filter_empty_conv)

lemma accept_count:
  assumes "s_server_bootstrap_on_accept_channel_setup env server e chan w = Some (s', conn', w')"
  shows "\<exists>evs. events w' = events w @ evs \<and> length (filter is_OnIncomingConnection evs) = 1"
proof (cases "e = AWS_ERROR_SUCCESS")
  case False
  with assms have "s_server_bootstrap_on_accept_channel_setup_error e False chan None w = (conn', w')"
    by (simp add: s_server_bootstrap_on_accept_channel_setup_def split: prod.splits)
  from accept_error_events [OF this] show ?thesis by simp
next
  case True
  with assms obtain ch where ch: "chan = Some ch"
    by (cases chan) (simp_all add: s_server_bootstrap_on_accept_channel_setup_def)
  obtain r w1 where cn: "s_connection_new env ch True (is_using_tls server)
      (manual_window_management server) (initial_window_size server) None w = (r, w1)"
    by (cases "s_connection_new env ch True (is_using_tls server)
      (manual_window_management server) (initial_window_size server) None w")
  from s_connection_new_quiet [OF cn] obtain evs1 where
    e1: "events w1 = events w @ evs1" and q1: "filter is_OnIncomingConnection evs1 = []"
    by (auto dest: quiet_filter)
  show ?thesis
  proof (cases r)
    case None
    with assms True ch cn
    have "s_server_bootstrap_on_accept_channel_setup_error AWS_ERROR_SUCCESS False (Some ch) None w1
        = (conn', w')"
      by (simp add: s_server_bootstrap_on_accept_channel_setup_def split: prod.splits)
    from accept_error_events [OF this] e1 q1 show ?thesis by auto
  next
    case (Some pc)
    obtain p c where pc: "pc = (p, c)" by (cases pc)
    let ?w4 = "s_server_unlock_synced_data
        (case (if (if is_shutting_down (synced_data server)
                   then AWS_ERROR_HTTP_CONNECTION_CLOSED else AWS_ERROR_SUCCESS) = AWS_ERROR_SUCCESS
               then aws_hash_table_put env else None) of
           Some e \<Rightarrow> snd (aws_raise_error e (s_server_lock_synced_data w1))
         | None \<Rightarrow> s_server_lock_synced_data w1)"
    have e4: "events ?w4 = events w @ evs1 @ [MutexLock, MutexUnlock]"
      by (simp add: s_server_unlock_synced_data_def s_server_lock_synced_data_def events_emit
          aws_raise_error_def e1 split: option.splits)
    consider
      (err) ec where "s_server_bootstrap_on_accept_channel_setup_error ec False (Some ch)
            (Some (p, c)) ?w4 = (conn', w')"
      | (react) c' l where "s_server_bootstrap_on_accept_channel_setup_error AWS_ERROR_SUCCESS True
            (Some ch) (Some (p, c'))
            ((emit (OnIncomingConnection (Some p) AWS_ERROR_SUCCESS) ?w4)\<lparr>last_error := l\<rparr>)
           = (conn', w')"
      | (ok) "w' = emit (OnIncomingConnection (Some p) AWS_ERROR_SUCCESS) ?w4"
      using assms True ch cn Some pc
      by (auto simp add: s_server_bootstrap_on_accept_channel_setup_def Let_def aws_raise_error_def
          split: prod.splits if_splits option.splits)
    then show ?thesis
    proof cases
      case err
      from accept_error_events [OF this] e4 q1 show ?thesis by auto
    next
      case react
      from accept_error_events [OF this] e4 q1 show ?thesis by (auto simp add: events_emit)
    next
      case ok
      with e4 q1 show ?thesis by (simp add: events_emit)
    qed
  qed
qed

text \<open>
  Claim C9. Every call of \<open>s_server_bootstrap_on_accept_channel_setup\<close> that returns has
  invoked the user's incoming-connection callback exactly once, so never twice. In
  particular, when the callback was invoked with success and the user left the connection
  without an incoming-request handler, the call returns having shut the channel down
  with \<open>AWS_ERROR_HTTP_REACTION_REQUIRED\<close> and released the connection, with no second
  invocation of the callback.
\<close>

theorem incoming_connection_callback_once:
  "(s_server_bootstrap_on_accept_channel_setup env server e0 chan w = Some (s', conn', w') \<longrightarrow>
      length (filter is_OnIncomingConnection (new_events w w')) = 1) \<and>
   (s_connection_new env ch True (is_using_tls server) (manual_window_management server)
        (initial_window_size server) None w = (Some (p, c), w1) \<and>
    \<not> is_shutting_down (synced_data server) \<and> aws_hash_table_put env = None \<and>
    server_data (on_incoming_connection server c) = Some sd \<and> on_incoming_request sd = None \<longrightarrow>
      s_server_bootstrap_on_accept_channel_setup env server AWS_ERROR_SUCCESS (Some ch) w =
        (case aws_http_connection_release (on_incoming_connection server c)
                (w1\<lparr>last_error := AWS_ERROR_HTTP_REACTION_REQUIRED,
                    events := events w1 @
                      [MutexLock, MutexUnlock,
                       OnIncomingConnection (Some p) AWS_ERROR_SUCCESS,
                       ChannelShutdown ch AWS_ERROR_HTTP_REACTION_REQUIRED]\<rparr>) of
           (c', w2) \<Rightarrow>
             Some (server\<lparr>synced_data := (synced_data server)
                     \<lparr>channel_to_connection_map :=
                        AList.update ch p (channel_to_connection_map (synced_data server))\<rparr>\<rparr>,
                   Some (p, c'), w2)))"
proof (intro conjI impI)
  assume "s_server_bootstrap_on_accept_channel_setup env server e0 chan w = Some (s', conn', w')"
  from accept_count [OF this] obtain evs where
    "events w' = events w @ evs" "length (filter is_OnIncomingConnection evs) = 1" by blast
  then show "length (filter is_OnIncomingConnection (new_events w w')) = 1"
    by (simp add: new_events_append)
next
  assume a: "s_connection_new env ch True (is_using_tls server) (manual_window_management server)
        (initial_window_size server) None w = (Some (p, c), w1) \<and>
    \<not> is_shutting_down (synced_data server) \<and> aws_hash_table_put env = None \<and>
    server_data (on_incoming_connection server c) = Some sd \<and> on_incoming_request sd = None"
  show "s_server_bootstrap_on_accept_channel_setup env server AWS_ERROR_SUCCESS (Some ch) w =
        (case aws_http_connection_release (on_incoming_connection server c)
                (w1\<lparr>last_error := AWS_ERROR_HTTP_REACTION_REQUIRED,
                    events := events w1 @
                      [MutexLock, MutexUnlock,
                       OnIncomingConnection (Some p) AWS_ERROR_SUCCESS,
                       ChannelShutdown ch AWS_ERROR_HTTP_REACTION_REQUIRED]\<rparr>) of
           (c', w2) \<Rightarrow>
             Some (server\<lparr>synced_data := (synced_data server)
                     \<lparr>channel_to_connection_map :=
                        AList.update ch p (channel_to_connection_map (synced_data server))\<rparr>\<rparr>,
                   Some (p, c'), w2))"
    using a
    by (simp add: s_server_bootstrap_on_accept_channel_setup_def accept_error_unfold
        s_server_lock_synced_data_def s_server_unlock_synced_data_def emit_def Let_def
        aws_raise_error_def
        split: prod.splits)
qed

theorem incoming_connection_callback_once_witness:
  "s_connection_new example_env 5 True (is_using_tls example_server)
       (manual_window_management example_server) (initial_window_size example_server) None
       example_world =
     (Some (21, example_server_conn\<lparr>channel_slot := 5\<rparr>),
      example_world\<lparr>events := [NewConnection AWS_HTTP_VERSION_1_1 True,
                                  ChannelHandlerInstalled 5 21]\<rparr>) \<and>
   \<not> is_shutting_down (synced_data example_server) \<and>
   aws_hash_table_put example_env = None \<and>
   server_data (on_incoming_connection example_server (example_server_conn\<lparr>channel_slot := 5\<rparr>)) =
     Some \<lparr>on_incoming_request = None, on_shutdown = None\<rparr> \<and>
   s_server_bootstrap_on_accept_channel_setup example_env example_server AWS_ERROR_SUCCESS
       (Some 5) example_world =
     Some (example_server\<lparr>synced_data :=
             \<lparr>is_shutting_down = False,
              channel_to_connection_map = [(3, 21), (4, 25), (5, 21)]\<rparr>\<rparr>,
           Some (21, example_server_conn\<lparr>channel_slot := 5, refcount := 0\<rparr>),
           \<lparr>last_error = AWS_ERROR_HTTP_REACTION_REQUIRED,
            events = [NewConnection AWS_HTTP_VERSION_1_1 True, ChannelHandlerInstalled 5 21,
                      MutexLock, MutexUnlock,
                      OnIncomingConnection (Some 21) AWS_ERROR_SUCCESS,
                      ChannelShutdown 5 AWS_ERROR_HTTP_REACTION_REQUIRED,
                      ChannelShutdown 5 AWS_ERROR_SUCCESS, ChannelReleaseHold 5]\<rparr>) \<and>
   length (filter is_OnIncomingConnection
     [NewConnection AWS_HTTP_VERSION_1_1 True, ChannelHandlerInstalled 5 21,
      MutexLock, MutexUnlock,
      OnIncomingConnection (Some 21) AWS_ERROR_SUCCESS,
      ChannelShutdown 5 AWS_ERROR_HTTP_REACTION_REQUIRED,
      ChannelShutdown 5 AWS_ERROR_SUCCESS, ChannelReleaseHold 5]) = 1"
proof -
  have h1: "s_connection_new example_env 5 True (is_using_tls example_server)
       (manual_window_management example_server) (initial_window_size example_server) None
       example_world =
     (Some (21, example_server_conn\<lparr>channel_slot := 5\<rparr>),
      example_world\<lparr>events := [NewConnection AWS_HTTP_VERSION_1_1 True,
                                  ChannelHandlerInstalled 5 21]\<rparr>)"
    using example_server_connection_new by (simp add: example_server_def)
  have h2: "\<not> is_shutting_down (synced_data example_server)"
    "aws_hash_table_put example_env = None"
    "server_data (on_incoming_connection example_server
       (example_server_conn\<lparr>channel_slot := 5\<rparr>)) =
     Some \<lparr>on_incoming_request = None, on_shutdown = None\<rparr>"
    "on_incoming_request \<lparr>on_incoming_request = None, on_shutdown = None\<rparr> = None"
    by (simp_all add: example_server_def example_env_def example_server_conn_def)
  have rel: "aws_http_connection_release (example_server_conn\<lparr>channel_slot := 5\<rparr>) ww =
      (example_server_conn\<lparr>channel_slot := 5, refcount := 0\<rparr>,
       ww\<lparr>events := events ww @ [ChannelShutdown 5 AWS_ERROR_SUCCESS, ChannelReleaseHold 5]\<rparr>)"
    for ww
    by (simp add: aws_http_connection_release_def example_server_conn_def emit_def)
  have cb: "on_incoming_connection example_server = (\<lambda>c. c)"
    and mp: "synced_data example_server =
      \<lparr>is_shutting_down = False, channel_to_connection_map = [(3, 21), (4, 25)]\<rparr>"
    by (simp_all add: example_server_def)
  show ?thesis
    using h1 h2
      incoming_connection_callback_once [where env = example_env and server = example_server
        and ch = 5 and w = example_world and p = 21
        and c = "example_server_conn\<lparr>channel_slot := 5\<rparr>"
        and ?w1.0 = "example_world\<lparr>events := [NewConnection AWS_HTTP_VERSION_1_1 True,
                                  ChannelHandlerInstalled 5 21]\<rparr>"
        and sd = "\<lparr>on_incoming_request = None, on_shutdown = None\<rparr>"]
    by (simp add: rel cb mp example_world_def)
qed

section \<open>Client connect: properties\<close>

lemma quiet_append: "quiet (xs @ ys) = (quiet xs \<and> quiet ys)"
  by (auto simp add: quiet_def)

lemma quiet_filters:
  "quiet evs \<Longrightarrow> filter is_OnSetup evs = [] \<and> filter is_OnShutdown evs = []"
  by (auto simp add: quiet_def filter_empty_conv)

lemma client_setup_established:
  assumes f: "cb_on_setup b = Some f"
  shows "\<exists>b' w2 evs.
      s_client_bootstrap_on_channel_setup env AWS_ERROR_SUCCESS (Some ch) b w = Some (b', w2) \<and>
      quiet evs \<and> cb_on_shutdown b' = cb_on_shutdown b \<and>
      ((cb_on_setup b' = Some f \<and> events w2 = events w @ evs) \<or>
       (\<exists>p c. cb_on_setup b' = None \<and> cb_connection b' = Some (p, c) \<and>
              events w2 = events w @ evs @ [OnSetup (Some p) AWS_ERROR_SUCCESS]))"
proof -
  obtain r w1 where cn: "s_connection_new env ch False (cb_is_using_tls b)
      (cb_manual_window_management b) (cb_initial_window_size b) (Some (cb_http2_options b)) w
      = (r, w1)"
    by (cases "s_connection_new env ch False (cb_is_using_tls b)
      (cb_manual_window_management b) (cb_initial_window_size b) (Some (cb_http2_options b)) w")
  from s_connection_new_quiet [OF cn] obtain evs1 where
    e1: "events w1 = events w @ evs1" and q1: "quiet evs1" by blast
  show ?thesis
  proof (cases r)
    case None
    have q: "quiet (evs1 @ [ChannelShutdown ch (last_error w1)])"
      using q1 by (simp add: quiet_append) (simp add: quiet_def)
    show ?thesis
      using None cn f e1 q
      by (simp add: s_client_bootstrap_on_channel_setup_def events_emit)
  next
    case (Some pc)
    obtain p c where pc: "pc = (p, c)" by (cases pc)
    show ?thesis
    proof (cases "aws_http_connection_monitoring_options_is_valid env")
      case False
      show ?thesis
        using Some pc cn f e1 q1 False
        by (auto simp add: s_client_bootstrap_on_channel_setup_def
            s_client_bootstrap_on_channel_setup_success_def events_emit Let_def)
    next
      case True
      show ?thesis
      proof (cases "aws_crt_statistics_handler_new_http_connection_monitor env")
        case None
        have q: "quiet (evs1 @ [ChannelSetStatisticsHandler ch])"
          using q1 by (simp add: quiet_append) (simp add: quiet_def)
        show ?thesis
          using Some pc cn f e1 q True None
          by (auto simp add: s_client_bootstrap_on_channel_setup_def
              s_client_bootstrap_on_channel_setup_success_def events_emit Let_def)
      next
        case (Some e)
        have q: "quiet (evs1 @ [ChannelShutdown ch e])"
          using q1 by (simp add: quiet_append) (simp add: quiet_def)
        show ?thesis
          using \<open>r = Some pc\<close> pc cn f e1 q True Some
          by (auto simp add: s_client_bootstrap_on_channel_setup_def aws_raise_error_def
              events_emit Let_def)
      qed
    qed
  qed
qed

text \<open>
  Claim C1. For a bootstrap with an \<open>on_setup\<close> callback and every outcome of the transport
  (failure with a non-zero code; success followed by the channel's shutdown, with the
  connection created or not), the run returns and \<open>on_setup\<close> was invoked exactly once:
  either with a connection and \<open>AWS_ERROR_SUCCESS\<close>, or with no connection and a non-zero
  code, which is the transport's code, or the shutdown's code with \<open>AWS_ERROR_UNKNOWN\<close> in
  place of zero. \<open>on_shutdown\<close> is invoked, once, exactly when \<open>on_setup\<close> reported success
  and the user supplied \<open>on_shutdown\<close>; otherwise it is not invoked.
\<close>

theorem client_setup_exactly_once:
  assumes f: "cb_on_setup b \<noteq> None" and ok: "outcome \<noteq> TransportFailed AWS_ERROR_SUCCESS"
  shows "\<exists>w' x e.
      client_connect_run env outcome b w = Some w' \<and>
      filter is_OnSetup (new_events w w') = [OnSetup x e] \<and>
      ((x = None) = (e \<noteq> AWS_ERROR_SUCCESS)) \<and>
      (case outcome of
         TransportFailed e0 \<Rightarrow>
           x = None \<and> e = e0 \<and> filter is_OnShutdown (new_events w w') = []
       | TransportEstablished ch sc \<Rightarrow>
           (x = None \<longrightarrow> e = (if sc = AWS_ERROR_SUCCESS then AWS_ERROR_UNKNOWN else sc)) \<and>
           filter is_OnShutdown (new_events w w') =
             (if x \<noteq> None \<and> cb_on_shutdown b \<noteq> None then [OnShutdown x sc] else []))"
proof (cases outcome)
  case (TransportFailed e0)
  with ok have e0: "e0 \<noteq> AWS_ERROR_SUCCESS" by simp
  from f obtain g where g: "cb_on_setup b = Some g" by auto
  have run: "client_connect_run env outcome b w =
      Some (emit MemReleaseBootstrap (emit (OnSetup None e0) w))"
    using TransportFailed e0 g
    by (simp add: client_connect_run_def s_client_bootstrap_on_channel_setup_def)
  have ne: "new_events w (emit MemReleaseBootstrap (emit (OnSetup None e0) w)) =
      [OnSetup None e0, MemReleaseBootstrap]"
    by (rule new_events_append) (simp add: events_emit)
  show ?thesis
    using TransportFailed e0 run ne by simp
next
  case (TransportEstablished ch sc)
  from f obtain g where g: "cb_on_setup b = Some g" by auto
  from client_setup_established [OF g, of env ch w] obtain b' w2 evs where
    su: "s_client_bootstrap_on_channel_setup env AWS_ERROR_SUCCESS (Some ch) b w = Some (b', w2)"
    and q: "quiet evs" and sh: "cb_on_shutdown b' = cb_on_shutdown b"
    and alt: "(cb_on_setup b' = Some g \<and> events w2 = events w @ evs) \<or>
       (\<exists>p c. cb_on_setup b' = None \<and> cb_connection b' = Some (p, c) \<and>
              events w2 = events w @ evs @ [OnSetup (Some p) AWS_ERROR_SUCCESS])"
    by blast
  let ?w' = "s_client_bootstrap_on_channel_shutdown sc (Some ch) b' w2"
  have run: "client_connect_run env outcome b w = Some ?w'"
    using TransportEstablished su by (simp add: client_connect_run_def)
  note qf = quiet_filters [OF q]
  from alt show ?thesis
  proof
    assume a: "cb_on_setup b' = Some g \<and> events w2 = events w @ evs"
    let ?e = "if sc = AWS_ERROR_SUCCESS then AWS_ERROR_UNKNOWN else sc"
    have "events ?w' = events w @ evs @ [OnSetup None ?e, MemReleaseBootstrap]"
      using a by (simp add: s_client_bootstrap_on_channel_shutdown_def events_emit)
    from new_events_append [OF this]
    have ne: "new_events w ?w' = evs @ [OnSetup None ?e, MemReleaseBootstrap]" .
    show ?thesis
      using TransportEstablished qf run ne by simp
  next
    assume "\<exists>p c. cb_on_setup b' = None \<and> cb_connection b' = Some (p, c) \<and>
              events w2 = events w @ evs @ [OnSetup (Some p) AWS_ERROR_SUCCESS]"
    then obtain p c where a: "cb_on_setup b' = None" "cb_connection b' = Some (p, c)"
      "events w2 = events w @ evs @ [OnSetup (Some p) AWS_ERROR_SUCCESS]" by blast
    let ?tail = "(if cb_on_shutdown b \<noteq> None then [OnShutdown (Some p) sc] else []) @
        [MemReleaseBootstrap]"
    have "events ?w' = events w @ evs @ [OnSetup (Some p) AWS_ERROR_SUCCESS] @ ?tail"
      using a sh by (simp add: s_client_bootstrap_on_channel_shutdown_def events_emit)
    from new_events_append [OF this]
    have ne: "new_events w ?w' = evs @ [OnSetup (Some p) AWS_ERROR_SUCCESS] @ ?tail" .
    show ?thesis
      using TransportEstablished qf run ne by simp
  qed
qed

theorem client_setup_exactly_once_witness:
  "cb_on_setup example_bootstrap \<noteq> None \<and>
   TransportFailed (AWS_ERROR_OTHER 5) \<noteq> TransportFailed AWS_ERROR_SUCCESS \<and>
   TransportEstablished 3 AWS_ERROR_SUCCESS \<noteq> TransportFailed AWS_ERROR_SUCCESS \<and>
   map_option events (client_connect_run example_env (TransportFailed (AWS_ERROR_OTHER 5))
       example_bootstrap example_world) =
     Some [OnSetup None (AWS_ERROR_OTHER 5), MemReleaseBootstrap] \<and>
   map_option events (client_connect_run failing_slot_env
       (TransportEstablished 3 AWS_ERROR_SUCCESS) example_bootstrap example_world) =
     Some [ChannelShutdown 3 (AWS_ERROR_OTHER 5), OnSetup None AWS_ERROR_UNKNOWN,
           MemReleaseBootstrap] \<and>
   map_option events (client_connect_run example_env
       (TransportEstablished 3 AWS_ERROR_SUCCESS) example_bootstrap example_world) =
     Some [NewConnection AWS_HTTP_VERSION_1_1 False, ChannelHandlerInstalled 3 22,
           OnSetup (Some 22) AWS_ERROR_SUCCESS, OnShutdown (Some 22) AWS_ERROR_SUCCESS,
           MemReleaseBootstrap] \<and>
   (\<exists>w' x e.
      client_connect_run example_env (TransportEstablished 3 AWS_ERROR_SUCCESS)
        example_bootstrap example_world = Some w' \<and>
      filter is_OnSetup (new_events example_world w') = [OnSetup x e] \<and>
      (x = None) = (e \<noteq> AWS_ERROR_SUCCESS))"
proof -
  have h: "cb_on_setup example_bootstrap \<noteq> None"
    by (simp add: example_bootstrap_def)
  have o: "TransportFailed (AWS_ERROR_OTHER 5) \<noteq> TransportFailed AWS_ERROR_SUCCESS"
    "TransportEstablished 3 AWS_ERROR_SUCCESS \<noteq> TransportFailed AWS_ERROR_SUCCESS"
    by simp_all
  have ew: "events example_world = []"
    by (simp add: example_world_def)
  have mv: "\<not> aws_http_connection_monitoring_options_is_valid example_env"
    by (simp add: example_env_def)
  have r1: "map_option events (client_connect_run example_env
       (TransportFailed (AWS_ERROR_OTHER 5)) example_bootstrap example_world) =
     Some [OnSetup None (AWS_ERROR_OTHER 5), MemReleaseBootstrap]"
    by (simp add: client_connect_run_def s_client_bootstrap_on_channel_setup_def
        example_bootstrap_def example_world_def emit_def)
  have r2: "map_option events (client_connect_run failing_slot_env
       (TransportEstablished 3 AWS_ERROR_SUCCESS) example_bootstrap example_world) =
     Some [ChannelShutdown 3 (AWS_ERROR_OTHER 5), OnSetup None AWS_ERROR_UNKNOWN,
           MemReleaseBootstrap]"
    by (simp add: client_connect_run_def s_client_bootstrap_on_channel_setup_def
        s_client_bootstrap_on_channel_shutdown_def failing_connection_new
        example_bootstrap_def ew emit_def)
  have r3: "map_option events (client_connect_run example_env
       (TransportEstablished 3 AWS_ERROR_SUCCESS) example_bootstrap example_world) =
     Some [NewConnection AWS_HTTP_VERSION_1_1 False, ChannelHandlerInstalled 3 22,
           OnSetup (Some 22) AWS_ERROR_SUCCESS, OnShutdown (Some 22) AWS_ERROR_SUCCESS,
           MemReleaseBootstrap]"
    by (simp add: client_connect_run_def s_client_bootstrap_on_channel_setup_def
        s_client_bootstrap_on_channel_setup_success_def
        s_client_bootstrap_on_channel_shutdown_def example_client_connection_new
        example_bootstrap_def mv emit_def)
  have t: "\<exists>w' x e.
      client_connect_run example_env (TransportEstablished 3 AWS_ERROR_SUCCESS)
        example_bootstrap example_world = Some w' \<and>
      filter is_OnSetup (new_events example_world w') = [OnSetup x e] \<and>
      (x = None) = (e \<noteq> AWS_ERROR_SUCCESS)"
    using client_setup_exactly_once [OF h o(2), of example_env example_world] by blast
  from h o r1 r2 r3 t show ?thesis by (intro conjI)
qed

end
